theory Spec2Isabelle
  imports Main "HOL-Library.Word"
begin

unbundle bit_operations_syntax

section \<open>Console input records (syscall types of the Windows build)\<close>

text \<open>
  The Go type declarations \<^verbatim>\<open>short int16\<close>, \<^verbatim>\<open>word uint16\<close>, \<^verbatim>\<open>dword uint32\<close>,
  \<^verbatim>\<open>wchar uint16\<close> become words of that width. A Go \<^verbatim>\<open>rune\<close> is an \<^verbatim>\<open>int32\<close>; every
  rune the reader computes lies between 0 and 0x10FFFF, so it is an \<open>int\<close> here and the
  one conversion to \<^verbatim>\<open>uint32\<close> (in \<^verbatim>\<open>utf8.EncodeRune\<close>) is written out.
\<close>

type_synonym byte = "8 word"
type_synonym dword = "32 word"
type_synonym wchar = "16 word"
type_synonym rune = int

record keyEventRecord =
  keyDown :: "32 word"
  repeatCount :: "16 word"
  virtualKeyCode :: "16 word"
  virtualScanCode :: "16 word"
  unicodeChar :: wchar
  controlKeyState :: dword

text \<open>
  \<^verbatim>\<open>inputRecord\<close> holds the event type and the 16 bytes of the event union; the reader
  casts those bytes to a \<^verbatim>\<open>keyEventRecord\<close> when the type is \<^verbatim>\<open>keyEvent\<close>. The field
  \<open>event\<close> is that view of the bytes.
\<close>

record inputRecord =
  eventType :: "16 word"
  event :: keyEventRecord

definition focusEvent :: "16 word" where "focusEvent = 0x0010"
definition keyEvent :: "16 word" where "keyEvent = 0x0001"
definition menuEvent :: "16 word" where "menuEvent = 0x0008"
definition mouseEvent :: "16 word" where "mouseEvent = 0x0002"
definition windowBufferSizeEvent :: "16 word" where "windowBufferSizeEvent = 0x0004"

subsection \<open>Virtual key codes\<close>

text \<open>
  The first constant block counts \<^verbatim>\<open>1 + iota\<close> from \<^verbatim>\<open>vk_lbutton\<close>, blanks included; the
  second counts \<^verbatim>\<open>0x5B + iota\<close> from \<^verbatim>\<open>vk_lwin\<close>. Only the codes the translator
  switches on are listed, each with the value its position in the block gives it.
\<close>

named_theorems vk_defs

definition vk_back :: int where [vk_defs]: "vk_back = 8"
definition vk_pause :: int where [vk_defs]: "vk_pause = 19"
definition vk_escape :: int where [vk_defs]: "vk_escape = 27"
definition vk_prior :: int where [vk_defs]: "vk_prior = 33"
definition vk_next :: int where [vk_defs]: "vk_next = 34"
definition vk_end :: int where [vk_defs]: "vk_end = 35"
definition vk_home :: int where [vk_defs]: "vk_home = 36"
definition vk_left :: int where [vk_defs]: "vk_left = 37"
definition vk_up :: int where [vk_defs]: "vk_up = 38"
definition vk_right :: int where [vk_defs]: "vk_right = 39"
definition vk_down :: int where [vk_defs]: "vk_down = 40"
definition vk_insert :: int where [vk_defs]: "vk_insert = 45"
definition vk_delete :: int where [vk_defs]: "vk_delete = 46"
definition vk_f1 :: int where [vk_defs]: "vk_f1 = 0x70"
definition vk_f2 :: int where [vk_defs]: "vk_f2 = 0x71"
definition vk_f3 :: int where [vk_defs]: "vk_f3 = 0x72"
definition vk_f4 :: int where [vk_defs]: "vk_f4 = 0x73"
definition vk_f5 :: int where [vk_defs]: "vk_f5 = 0x74"
definition vk_f6 :: int where [vk_defs]: "vk_f6 = 0x75"
definition vk_f7 :: int where [vk_defs]: "vk_f7 = 0x76"
definition vk_f8 :: int where [vk_defs]: "vk_f8 = 0x77"
definition vk_f9 :: int where [vk_defs]: "vk_f9 = 0x78"
definition vk_f10 :: int where [vk_defs]: "vk_f10 = 0x79"
definition vk_f11 :: int where [vk_defs]: "vk_f11 = 0x7A"
definition vk_f12 :: int where [vk_defs]: "vk_f12 = 0x7B"
definition vk_packet :: int where [vk_defs]: "vk_packet = 0xE7"

subsection \<open>Control key states\<close>

definition left_alt_pressed :: dword where "left_alt_pressed = 0x0002"
definition left_ctrl_pressed :: dword where "left_ctrl_pressed = 0x0008"
definition right_alt_pressed :: dword where "right_alt_pressed = 0x0001"
definition right_ctrl_pressed :: dword where "right_ctrl_pressed = 0x0004"
definition shift_pressed :: dword where "shift_pressed = 0x0010"

lemmas cks_defs =
  left_alt_pressed_def left_ctrl_pressed_def right_alt_pressed_def right_ctrl_pressed_def

subsection \<open>Key tables\<close>

text \<open>
  Go map literals. Reading a Go map at a key it does not hold gives the zero value of
  the element type, which \<open>lookup0\<close> and \<open>lookup00\<close> write out.
\<close>

definition bytes_of :: "string \<Rightarrow> byte list" where
  "bytes_of s = map of_char s"

definition arrowKeyMap :: "int \<rightharpoonup> byte" where
  "arrowKeyMap = [
     vk_up \<mapsto> of_char CHR ''A'',
     vk_down \<mapsto> of_char CHR ''B'',
     vk_right \<mapsto> of_char CHR ''C'',
     vk_left \<mapsto> of_char CHR ''D'',
     vk_home \<mapsto> of_char CHR ''H'',
     vk_end \<mapsto> of_char CHR ''F'']"

definition f1ToF4KeyMap :: "int \<rightharpoonup> byte" where
  "f1ToF4KeyMap = [
     vk_f1 \<mapsto> of_char CHR ''P'',
     vk_f2 \<mapsto> of_char CHR ''Q'',
     vk_f3 \<mapsto> of_char CHR ''R'',
     vk_f4 \<mapsto> of_char CHR ''S'']"

definition f5toF12KeyMap :: "int \<rightharpoonup> byte \<times> byte" where
  "f5toF12KeyMap = [
     vk_f5 \<mapsto> (of_char CHR ''1'', of_char CHR ''5''),
     vk_f6 \<mapsto> (of_char CHR ''1'', of_char CHR ''7''),
     vk_f7 \<mapsto> (of_char CHR ''1'', of_char CHR ''8''),
     vk_f8 \<mapsto> (of_char CHR ''1'', of_char CHR ''9''),
     vk_f9 \<mapsto> (of_char CHR ''2'', of_char CHR ''0''),
     vk_f10 \<mapsto> (of_char CHR ''2'', of_char CHR ''1''),
     vk_f11 \<mapsto> (of_char CHR ''2'', of_char CHR ''3''),
     vk_f12 \<mapsto> (of_char CHR ''2'', of_char CHR ''4'')]"

definition lookup0 :: "(int \<rightharpoonup> byte) \<Rightarrow> int \<Rightarrow> byte" where
  "lookup0 m k = (case m k of Some v \<Rightarrow> v | None \<Rightarrow> 0)"

definition lookup00 :: "(int \<rightharpoonup> byte \<times> byte) \<Rightarrow> int \<Rightarrow> byte \<times> byte" where
  "lookup00 m k = (case m k of Some v \<Rightarrow> v | None \<Rightarrow> (0, 0))"

section \<open>Library functions the reader calls\<close>

text \<open>
  \<^verbatim>\<open>utf8.EncodeRune\<close> of the Go standard library, as the bytes it writes (its result
  \<^verbatim>\<open>n\<close> is their number). The switch is on \<^verbatim>\<open>uint32(r)\<close>; a surrogate or a value past
  \<^verbatim>\<open>MaxRune\<close> is replaced by \<^verbatim>\<open>RuneError\<close> (U+FFFD) and encoded in three bytes.
\<close>

definition RuneError :: rune where "RuneError = 0xFFFD"

definition encode3 :: "rune \<Rightarrow> byte list" where
  "encode3 r = [0xE0 OR of_int (drop_bit 12 r),
                0x80 OR (of_int (drop_bit 6 r) AND 0x3F),
                0x80 OR (of_int r AND 0x3F)]"

definition EncodeRune :: "rune \<Rightarrow> byte list" where
  "EncodeRune r = (let i = r mod 2 ^ 32 in
     if i \<le> 0x7F then [of_int r]
     else if i \<le> 0x7FF then
       [0xC0 OR of_int (drop_bit 6 r), 0x80 OR (of_int r AND 0x3F)]
     else if i > 0x10FFFF \<or> (0xD800 \<le> i \<and> i \<le> 0xDFFF) then encode3 RuneError
     else if i \<le> 0xFFFF then encode3 r
     else [0xF0 OR of_int (drop_bit 18 r),
           0x80 OR (of_int (drop_bit 12 r) AND 0x3F),
           0x80 OR (of_int (drop_bit 6 r) AND 0x3F),
           0x80 OR (of_int r AND 0x3F)])"

text \<open>
  The verb \<^verbatim>\<open>%c\<close> of \<^verbatim>\<open>fmt.Sprintf\<close> prints the character of an integer operand: its
  UTF-8 encoding.
\<close>

definition fmt_c :: "int \<Rightarrow> byte list" where
  "fmt_c v = EncodeRune v"

text \<open>\<^verbatim>\<open>utf16.IsSurrogate\<close> and \<^verbatim>\<open>utf16.DecodeRune\<close> of the Go standard library.\<close>

definition surr1 :: rune where "surr1 = 0xD800"
definition surr2 :: rune where "surr2 = 0xDC00"
definition surr3 :: rune where "surr3 = 0xE000"
definition surrSelf :: rune where "surrSelf = 0x10000"
definition replacementChar :: rune where "replacementChar = 0xFFFD"

definition IsSurrogate :: "rune \<Rightarrow> bool" where
  "IsSurrogate r = (surr1 \<le> r \<and> r < surr3)"

definition DecodeRune :: "rune \<Rightarrow> rune \<Rightarrow> rune" where
  "DecodeRune r1 r2 =
     (if surr1 \<le> r1 \<and> r1 < surr2 \<and> surr2 \<le> r2 \<and> r2 < surr3
      then (push_bit 10 (r1 - surr1) OR (r2 - surr2)) + surrSelf
      else replacementChar)"

section \<open>The console input translator: \<^verbatim>\<open>ansiReader\<close>\<close>

record ansiReader =
  fd :: nat
  lastRune :: rune

definition NewAnsiReader :: "nat \<Rightarrow> ansiReader" where
  "NewAnsiReader f = \<lparr>fd = f, lastRune = 0\<rparr>"

definition ESC :: byte where "ESC = 0x1B"

text \<open>
  \<^verbatim>\<open>toAnsiSeq\<close>: the switch on the virtual key code, then the test for a printable
  character with Alt. \<open>None\<close> is Go's \<^verbatim>\<open>nil\<close> slice; every other result is a non-empty
  slice.
\<close>

definition toAnsiSeq :: "ansiReader \<Rightarrow> keyEventRecord \<Rightarrow> byte list option" where
  "toAnsiSeq ar k = (let vk = uint (virtualKeyCode k) in
     if vk = vk_up \<or> vk = vk_down \<or> vk = vk_right \<or> vk = vk_left \<or> vk = vk_home \<or> vk = vk_end then
       (if controlKeyState k AND (left_ctrl_pressed OR right_ctrl_pressed) \<noteq> 0
        then Some (ESC # bytes_of ''[1;5'' @ fmt_c (uint (lookup0 arrowKeyMap vk)))
        else Some (ESC # bytes_of ''['' @ fmt_c (uint (lookup0 arrowKeyMap vk))))
     else if vk = vk_back then
       (if controlKeyState k AND (left_alt_pressed OR right_alt_pressed) \<noteq> 0 \<and>
           controlKeyState k AND (left_ctrl_pressed OR right_ctrl_pressed) = 0
        then Some [0x1b, 0x08]
        else Some [0x7f])
     else if vk = vk_pause then Some [0x1a]
     else if vk = vk_escape then Some [0x1b]
     else if vk = vk_insert then Some (ESC # bytes_of ''[2~'')
     else if vk = vk_delete then Some (ESC # bytes_of ''[3~'')
     else if vk = vk_prior then Some (ESC # bytes_of ''[5~'')
     else if vk = vk_next then Some (ESC # bytes_of ''[6~'')
     else if vk = vk_f1 \<or> vk = vk_f2 \<or> vk = vk_f3 \<or> vk = vk_f4 then
       Some (ESC # bytes_of ''O'' @ fmt_c (uint (lookup0 f1ToF4KeyMap vk)))
     else if vk = vk_f5 \<or> vk = vk_f6 \<or> vk = vk_f7 \<or> vk = vk_f8 \<or>
             vk = vk_f9 \<or> vk = vk_f10 \<or> vk = vk_f11 \<or> vk = vk_f12 then
       Some (ESC # bytes_of ''['' @ fmt_c (uint (fst (lookup00 f5toF12KeyMap vk)))
                 @ fmt_c (uint (snd (lookup00 f5toF12KeyMap vk))) @ bytes_of ''~'')
     else if 0x20 \<le> unicodeChar k \<and> unicodeChar k \<le> 0x7E \<and>
             controlKeyState k AND (left_alt_pressed OR right_alt_pressed) \<noteq> 0 \<and>
             controlKeyState k AND (left_ctrl_pressed OR right_ctrl_pressed) = 0
       then Some (ESC # fmt_c (uint (unicodeChar k)))
     else None)"

text \<open>
  The body of the loop of \<^verbatim>\<open>Read\<close> for a record of type \<^verbatim>\<open>keyEvent\<close>; \<open>b\<close> is the
  slice being filled. Each \<^verbatim>\<open>continue\<close> of the source is a branch that returns.
  The buffer \<^verbatim>\<open>Read\<close> is given holds 128 bytes (\<^verbatim>\<open>invokeInOutPipes\<close>) and a record
  appends at most six, two records at most twelve, so \<^verbatim>\<open>append\<close> never reallocates and
  \<^verbatim>\<open>EncodeRune\<close> always has room.
\<close>

definition readKeyEvent :: "ansiReader \<Rightarrow> byte list \<Rightarrow> keyEventRecord \<Rightarrow> ansiReader \<times> byte list" where
  "readKeyEvent ar b ev =
     (if keyDown ev \<noteq> 1 then (ar, b)
      else case toAnsiSeq ar ev of
        Some seq \<Rightarrow> (ar, b @ seq)
      | None \<Rightarrow>
          (let r = uint (unicodeChar ev) in
           if lastRune ar \<noteq> 0 then
             (let r' = DecodeRune (lastRune ar) r; ar' = ar\<lparr>lastRune := 0\<rparr> in
              if r' = 0 then (ar', b) else (ar', b @ EncodeRune r'))
           else if IsSurrogate r then (ar\<lparr>lastRune := r\<rparr>, b)
           else if r = 0 then (ar, b)
           else (ar, b @ EncodeRune r)))"

definition readRecord :: "ansiReader \<Rightarrow> byte list \<Rightarrow> inputRecord \<Rightarrow> ansiReader \<times> byte list" where
  "readRecord ar b record =
     (if eventType record = keyEvent then readKeyEvent ar b (event record) else (ar, b))"

fun readRecords :: "ansiReader \<Rightarrow> byte list \<Rightarrow> inputRecord list \<Rightarrow> ansiReader \<times> byte list" where
  "readRecords ar b [] = (ar, b)"
| "readRecords ar b (record # records) =
     (case readRecord ar b record of (ar', b') \<Rightarrow> readRecords ar' b' records)"

text \<open>
  Errors are values: \<^verbatim>\<open>io.EOF\<close>; the \<^verbatim>\<open>syscall.Errno\<close> of a console call; the error
  of a collaborator, kept as its text; \<^verbatim>\<open>fmt.Errorf("prefix: %s", err)\<close>, kept as
  the prefix and the error it wraps; and the error that \<^verbatim>\<open>restoreLocalTerminalMode\<close>
  builds from the failures of the streams, kept as the list of stream names and errors.
\<close>

datatype error =
    EOF
  | Errno nat
  | Failure string
  | Wrapped string error
  | RestoreFailed "(string \<times> error) list"

text \<open>
  \<^verbatim>\<open>Read\<close>. The argument \<open>console\<close> is what \<^verbatim>\<open>readConsoleInput\<close> returned for the
  two-record buffer: an error, or the \<^verbatim>\<open>nr\<close> records it filled. The result is the reader
  after the call and either the error or the bytes left in \<^verbatim>\<open>b\<close> (\<^verbatim>\<open>n\<close> is their
  number).
\<close>

definition Read :: "ansiReader \<Rightarrow> error + inputRecord list \<Rightarrow> ansiReader \<times> (error + byte list)" where
  "Read ar console =
     (case console of
        Inl err \<Rightarrow> (ar, Inl err)
      | Inr records \<Rightarrow>
          if length records = 0 then (ar, Inl EOF)
          else (case readRecords ar [] records of (ar', b) \<Rightarrow> (ar', Inr b)))"

section \<open>Session state of the Windows build\<close>

text \<open>
  \<^verbatim>\<open>sysInfo\<close>. Its field \<^verbatim>\<open>lastRune\<close> is \<open>sysLastRune\<close> here, the name being taken by
  the reader's field; no function of the package reads or writes it.
\<close>

record sysInfo =
  stdinMode :: dword
  stdoutMode :: dword
  stderrMode :: dword
  emuStdin :: bool
  emuStdout :: bool
  sysLastRune :: rune

text \<open>
  \<^verbatim>\<open>readFromStdin\<close> builds a new reader with \<^verbatim>\<open>NewAnsiReader(os.Stdin)\<close> on every call
  when input is emulated, reads once and drops the reader. \<open>stdin_fd\<close> is the descriptor
  of \<^verbatim>\<open>os.Stdin\<close>, \<open>console\<close> the answer of the console to this call and \<open>raw\<close> the
  answer of \<^verbatim>\<open>os.Stdin.Read\<close>.
\<close>

definition stdin_fd :: nat where "stdin_fd = 0"

definition readFromStdin :: "sysInfo \<Rightarrow> error + inputRecord list \<Rightarrow> error + byte list \<Rightarrow> error + byte list" where
  "readFromStdin sys console raw =
     (if emuStdin sys then snd (Read (NewAnsiReader stdin_fd) console) else raw)"

section \<open>The local-input pump of \<^verbatim>\<open>invokeInOutPipes\<close>\<close>

text \<open>
  The third goroutine of \<^verbatim>\<open>invokeInOutPipes\<close>. What it does to the outside is a list
  of actions: a write to or the close of the remote stdin pipe \<^verbatim>\<open>ms.rStdin\<close>, or a line
  given to the logger (the format's text and the error).
\<close>

datatype pump_action =
    RStdinWrite "byte list"
  | RStdinClose
  | PumpLogged string error

text \<open>
  One turn of the loop is decided by what the outside answers: the console and the raw
  stream for \<^verbatim>\<open>readFromStdin\<close>, and the result of \<^verbatim>\<open>ms.rStdin.Write\<close> should the turn
  write. The result is the actions done and whether the goroutine has returned; with the
  turns used up and no return it is blocked in the next read. With \<open>emuStdin\<close> off,
  \<^verbatim>\<open>readFromStdin\<close> is \<^verbatim>\<open>os.Stdin.Read\<close>, as on the other platforms.
\<close>

type_synonym pump_turn = "(error + inputRecord list) \<times> (error + byte list) \<times> error option"

fun stdinPump :: "sysInfo \<Rightarrow> pump_turn list \<Rightarrow> pump_action list \<times> bool" where
  "stdinPump sys [] = ([], False)"
| "stdinPump sys ((console, raw, wr) # turns) =
     (case readFromStdin sys console raw of
        Inl err \<Rightarrow>
          ((if err \<noteq> EOF then [PumpLogged ''failed to read bytes from local stdin'' err] else [])
             @ [RStdinClose], True)
      | Inr buf \<Rightarrow>
          if length buf > 0 then
            (case wr of
               Some werr \<Rightarrow>
                 ([RStdinWrite buf, PumpLogged ''failed to write bytes to remote stdin'' werr], True)
             | None \<Rightarrow>
                 (case stdinPump sys turns of (acts, returned) \<Rightarrow> (RStdinWrite buf # acts, returned)))
          else stdinPump sys turns)"

text \<open>
  A turn that keeps the pump running: the read gave no error, and the write, if there
  was one, gave none.
\<close>

definition turn_continues :: "sysInfo \<Rightarrow> pump_turn \<Rightarrow> bool" where
  "turn_continues sys turn =
     (case turn of (console, raw, wr) \<Rightarrow>
        (case readFromStdin sys console raw of
           Inl err \<Rightarrow> False
         | Inr buf \<Rightarrow> length buf = 0 \<or> wr = None))"

section \<open>The resize pump of \<^verbatim>\<open>invokeResizeTerminal\<close>\<close>

record windowChangeReq =
  W :: "32 word"
  H :: "32 word"
  Wpx :: "32 word"
  Hpx :: "32 word"

text \<open>
  \<^verbatim>\<open>ms.sess.SendRequest(name, wantReply, payload)\<close>; the payload is the request that
  \<^verbatim>\<open>ssh.Marshal\<close> serialises.
\<close>

datatype resize_action =
    SendRequest string bool windowChangeReq
  | ResizeLogged string error

text \<open>
  What the goroutine meets at its \<^verbatim>\<open>select\<close>: the context is done, the channel of the
  watcher is closed, or a notification arrives. With a notification come the answer of
  \<^verbatim>\<open>getWindowSize\<close> (width, height, error) and the error of \<^verbatim>\<open>SendRequest\<close>, should the
  turn send.
\<close>

datatype resize_input =
    CtxDone
  | ChClosed
  | Notified "int \<times> int \<times> error option" "error option"

text \<open>The body of the loop after a notification: the new pair \<open>(w, h)\<close> and the actions.\<close>

definition resizeTurn ::
  "int \<times> int \<Rightarrow> int \<times> int \<times> error option \<Rightarrow> error option \<Rightarrow> (int \<times> int) \<times> resize_action list" where
  "resizeTurn prev sz send =
     (case (prev, sz) of ((w, h), (newW, newH, err)) \<Rightarrow>
        (case err of
           Some e \<Rightarrow> ((w, h), [ResizeLogged ''failed to get new window size'' e])
         | None \<Rightarrow>
             if newW = w \<and> newH = h then ((w, h), [])
             else
               (let req = SendRequest ''window-change'' False
                            \<lparr>W = word_of_int newW, H = word_of_int newH, Wpx = 0, Hpx = 0\<rparr>
                in case send of
                     Some e \<Rightarrow> ((w, h), [req, ResizeLogged ''failed to set new window size'' e])
                   | None \<Rightarrow> ((newW, newH), [req]))))"

text \<open>
  The loop: the actions, the last pair reported, and whether the goroutine returned.
\<close>

fun resizeLoop :: "int \<times> int \<Rightarrow> resize_input list \<Rightarrow> resize_action list \<times> (int \<times> int) \<times> bool" where
  "resizeLoop prev [] = ([], prev, False)"
| "resizeLoop prev (CtxDone # inputs) = ([], prev, True)"
| "resizeLoop prev (ChClosed # inputs) = ([], prev, True)"
| "resizeLoop prev (Notified sz send # inputs) =
     (case resizeTurn prev sz send of (prev', acts) \<Rightarrow>
        (case resizeLoop prev' inputs of (acts', final, returned) \<Rightarrow> (acts @ acts', final, returned)))"

text \<open>
  The goroutine: it first asks for the window size, logs a failure and keeps the pair
  that came with it, then runs the loop.
\<close>

definition resizePump ::
  "int \<times> int \<times> error option \<Rightarrow> resize_input list \<Rightarrow> resize_action list \<times> (int \<times> int) \<times> bool" where
  "resizePump first inputs =
     (case first of (w, h, err) \<Rightarrow>
        (case resizeLoop (w, h) inputs of (acts, final, returned) \<Rightarrow>
           ((case err of Some e \<Rightarrow> [ResizeLogged ''failed to get current window size'' e] | None \<Rightarrow> [])
              @ acts, final, returned)))"

section \<open>The session-ending message\<close>

text \<open>
  The result of \<^verbatim>\<open>ms.sess.Wait()\<close> is \<^verbatim>\<open>nil\<close> or an error; the type switch of
  \<^verbatim>\<open>printExitMessage\<close> knows \<^verbatim>\<open>*ssh.ExitMissingError\<close> and \<^verbatim>\<open>*ssh.ExitError\<close> and
  has a default. The string is what \<^verbatim>\<open>%s\<close> prints for the error, its \<^verbatim>\<open>Error()\<close> text.
\<close>

datatype wait_error =
    ExitMissingError string
  | ExitError string
  | OtherError string

definition newline :: string where
  "newline = [CHR 0x0A]"

text \<open>
  \<^verbatim>\<open>printExitMessage\<close>: the text the calls of \<^verbatim>\<open>fmt.Printf\<close> and \<^verbatim>\<open>fmt.Println\<close> write to
  the standard output, one after the other.
\<close>

definition printExitMessage :: "string \<Rightarrow> wait_error option \<Rightarrow> string" where
  "printExitMessage host err =
     (''ssh connection to '' @ host @ '' closed '') @
     (case err of
        Some (ExitMissingError e) \<Rightarrow> ''but remote didn't send exit status: '' @ e @ newline
      | Some (ExitError e) \<Rightarrow> ''with error: '' @ e @ newline
      | Some (OtherError e) \<Rightarrow> ''with unknown error: '' @ e @ newline
      | None \<Rightarrow> ''successfully'' @ newline)"

section \<open>The session runner: \<^verbatim>\<open>RunInteractive\<close>\<close>

text \<open>
  What \<^verbatim>\<open>RunInteractive\<close> does, in order, as a list of actions: the calls to the SSH
  session and to the terminal, the goroutines it starts, what it prints, and the three
  calls of its deferred function.
\<close>

datatype run_action =
    GetWindowSize
  | RequestPty string int int
  | StdinPipe
  | StdoutPipe
  | StderrPipe
  | Shell
  | ChangeLocalTerminalMode
  | WatchSignals
  | GoResizeWatcher
  | GoResizePump
  | GoStdoutPump
  | GoStderrPump
  | GoStdinPump
  | GoSessWait
  | Printed string
  | SignalStop
  | CancelCtx
  | WaitGroupWait

text \<open>Which of the two channels of the final \<^verbatim>\<open>select\<close> delivers first.\<close>

datatype race_outcome =
    GotSignal
  | SessionExited "wait_error option"

text \<open>
  The configuration, the environment and the answers of the collaborators for one run:
  \<^verbatim>\<open>TERM\<close>, \<^verbatim>\<open>conf.NoTTY\<close>, \<^verbatim>\<open>conf.Host\<close>, the result of \<^verbatim>\<open>getWindowSize\<close>, the errors
  of \<^verbatim>\<open>RequestPty\<close>, of the three pipes and of \<^verbatim>\<open>Shell\<close>, the error of
  \<^verbatim>\<open>changeLocalTerminalMode\<close>, and the winner of the race.
\<close>

record session_env =
  envTERM :: string
  confNoTTY :: bool
  confHost :: string
  windowSize :: "int \<times> int \<times> error option"
  requestPtyErr :: "error option"
  stdinPipeErr :: "error option"
  stdoutPipeErr :: "error option"
  stderrPipeErr :: "error option"
  shellErr :: "error option"
  changeModeErr :: "error option"
  race :: race_outcome

definition defaultTermName :: string where
  "defaultTermName = ''xterm''"

definition prepareRemoteTerminal :: "session_env \<Rightarrow> run_action list \<times> error option" where
  "prepareRemoteTerminal env =
     (let termName = (if envTERM env = [] then defaultTermName else envTERM env) in
      case windowSize env of (w, h, err) \<Rightarrow>
      (case err of
         Some e \<Rightarrow>
           ([GetWindowSize], Some (Wrapped ''failed to get terminal width and height'' e))
       | None \<Rightarrow>
      (let pty = (if \<not> confNoTTY env then [RequestPty termName h w] else []) in
       case (if \<not> confNoTTY env then requestPtyErr env else None) of
         Some e \<Rightarrow>
           (GetWindowSize # pty, Some (Wrapped ''request for pseudo terminal failed'' e))
       | None \<Rightarrow>
      (case stdinPipeErr env of
         Some e \<Rightarrow>
           (GetWindowSize # pty @ [StdinPipe],
            Some (Wrapped ''failed to get remote stdin pipe'' e))
       | None \<Rightarrow>
      (case stdoutPipeErr env of
         Some e \<Rightarrow>
           (GetWindowSize # pty @ [StdinPipe, StdoutPipe],
            Some (Wrapped ''failed to get remote stdout pipe'' e))
       | None \<Rightarrow>
      (case stderrPipeErr env of
         Some e \<Rightarrow>
           (GetWindowSize # pty @ [StdinPipe, StdoutPipe, StderrPipe],
            Some (Wrapped ''failed to get remote stderr pipe'' e))
       | None \<Rightarrow>
      (case shellErr env of
         Some e \<Rightarrow>
           (GetWindowSize # pty @ [StdinPipe, StdoutPipe, StderrPipe, Shell],
            Some (Wrapped ''failed to start shell'' e))
       | None \<Rightarrow>
           (GetWindowSize # pty @ [StdinPipe, StdoutPipe, StderrPipe, Shell], None))))))))"

definition prepareLocalTerminal :: "session_env \<Rightarrow> run_action list \<times> error option" where
  "prepareLocalTerminal env =
     (case changeModeErr env of
        Some e \<Rightarrow> ([ChangeLocalTerminalMode], Some (Wrapped ''failed to change local terminal mode'' e))
      | None \<Rightarrow> ([ChangeLocalTerminalMode], None))"

text \<open>
  \<^verbatim>\<open>invokeResizeTerminal\<close> starts the watcher (inside \<^verbatim>\<open>watchTerminalResize\<close>) and the
  resize goroutine; \<^verbatim>\<open>invokeInOutPipes\<close> starts the copies of the remote stdout and
  stderr and the local-input pump.
\<close>

definition invokeResizeTerminal :: "run_action list" where
  "invokeResizeTerminal = [GoResizeWatcher, GoResizePump]"

definition invokeInOutPipes :: "run_action list" where
  "invokeInOutPipes = [GoStdoutPump, GoStderrPump, GoStdinPump]"

definition RunInteractive :: "session_env \<Rightarrow> run_action list \<times> error option" where
  "RunInteractive env =
     (case prepareRemoteTerminal env of
        (t1, Some e) \<Rightarrow> (t1, Some e)
      | (t1, None) \<Rightarrow>
     (case prepareLocalTerminal env of
        (t2, Some e) \<Rightarrow> (t1 @ t2, Some e)
      | (t2, None) \<Rightarrow>
          (t1 @ t2 @ [WatchSignals] @ invokeResizeTerminal @ invokeInOutPipes @ [GoSessWait] @
           (case race env of
              GotSignal \<Rightarrow> [Printed (''got signal'' @ newline)]
            | SessionExited err \<Rightarrow> [Printed (printExitMessage (confHost env) err)]) @
           [SignalStop, CancelCtx, WaitGroupWait],
           None)))"

text \<open>The goroutines that are pumps (the four of the specification) or the watcher.\<close>

fun is_pump_start :: "run_action \<Rightarrow> bool" where
  "is_pump_start GoResizeWatcher = True"
| "is_pump_start GoResizePump = True"
| "is_pump_start GoStdoutPump = True"
| "is_pump_start GoStderrPump = True"
| "is_pump_start GoStdinPump = True"
| "is_pump_start _ = False"

section \<open>The resize watcher: \<^verbatim>\<open>watchTerminalResize\<close>\<close>

text \<open>
  The goroutine of \<^verbatim>\<open>watchTerminalResize\<close> as a state machine. It loops over a
  \<^verbatim>\<open>select\<close> with two cases, \<^verbatim>\<open>ctx.Done()\<close> and the source of events (\<^verbatim>\<open>sigC\<close> fed by
  SIGWINCH, or \<^verbatim>\<open>ticker.C\<close> on Windows; both hold one value), and after an event it
  executes the plain send \<^verbatim>\<open>ch <- struct{}{}\<close> on the channel \<^verbatim>\<open>ch\<close> of capacity 1.
  On return the deferred function closes \<^verbatim>\<open>ch\<close>. The goroutine is at the \<^verbatim>\<open>select\<close>, at
  the send, or has returned.
\<close>

datatype watcher_pc = AtSelect | AtSend | Returned

record watcher =
  pc :: watcher_pc
  ctxDone :: bool
  eventPending :: bool
  chLen :: nat
  chClosed :: nat

definition chCap :: nat where "chCap = 1"

definition newWatcher :: watcher where
  "newWatcher = \<lparr>pc = AtSelect, ctxDone = False, eventPending = False, chLen = 0, chClosed = 0\<rparr>"

text \<open>
  What happens around the goroutine: the context is cancelled; a signal or a tick
  arrives; the consumer (the resize pump) receives from \<^verbatim>\<open>ch\<close>; or the goroutine is
  scheduled and runs up to its next blocking point. When both cases of the \<^verbatim>\<open>select\<close> are
  ready Go picks one of them at random, which the schedule decides.
\<close>

datatype select_choice = PickDone | PickEvent

datatype sched_event =
    CtxCancel
  | EventArrives
  | ConsumerReceives
  | WatcherRuns select_choice

fun watcherStep :: "watcher \<Rightarrow> sched_event \<Rightarrow> watcher" where
  "watcherStep s CtxCancel = s\<lparr>ctxDone := True\<rparr>"
| "watcherStep s EventArrives = s\<lparr>eventPending := True\<rparr>"
| "watcherStep s ConsumerReceives = (if chLen s > 0 then s\<lparr>chLen := chLen s - 1\<rparr> else s)"
| "watcherStep s (WatcherRuns choice) =
     (case pc s of
        Returned \<Rightarrow> s
      | AtSend \<Rightarrow>
          if chLen s < chCap then s\<lparr>pc := AtSelect, chLen := chLen s + 1\<rparr> else s
      | AtSelect \<Rightarrow>
          if ctxDone s \<and> (\<not> eventPending s \<or> choice = PickDone)
          then s\<lparr>pc := Returned, chClosed := chClosed s + 1\<rparr>
          else if eventPending s then s\<lparr>pc := AtSend, eventPending := False\<rparr>
          else s)"

definition runWatcher :: "watcher \<Rightarrow> sched_event list \<Rightarrow> watcher" where
  "runWatcher s events = foldl watcherStep s events"

text \<open>
  A schedule in which two events arrive before the consumer receives: the first is
  buffered in \<^verbatim>\<open>ch\<close>, the send of the second blocks.
\<close>

definition twoEventsUnread :: "sched_event list" where
  "twoEventsUnread =
     [EventArrives, WatcherRuns PickEvent, WatcherRuns PickEvent,
      EventArrives, WatcherRuns PickEvent, WatcherRuns PickEvent]"

section \<open>Terminal modes\<close>

subsection \<open>The console of the Windows build\<close>

definition enableEchoInput :: dword where "enableEchoInput = 0x0004"
definition enableLineInput :: dword where "enableLineInput = 0x0002"
definition enableProcessedInput :: dword where "enableProcessedInput = 0x0001"
definition enableVirtualTerminalInput :: dword where "enableVirtualTerminalInput = 0x0200"
definition enableVirtualTerminalProcessing :: dword where "enableVirtualTerminalProcessing = 0x0004"
definition disableNewlineAutoReturn :: dword where "disableNewlineAutoReturn = 0x0008"

datatype stdfd = Stdin | Stdout | Stderr

text \<open>
  The answers of the operating system: \<^verbatim>\<open>getConsoleMode\<close> returns a mode and an error,
  \<^verbatim>\<open>setConsoleMode\<close> an error, for each of the three standard handles.
\<close>

record console =
  getConsoleMode :: "stdfd \<Rightarrow> dword \<times> error option"
  setConsoleMode :: "stdfd \<Rightarrow> dword \<Rightarrow> error option"

datatype mode_action =
    SetConsoleMode stdfd dword
  | ModeLogged string "error option"

text \<open>
  \<^verbatim>\<open>changeLocalTerminalMode\<close> in its three parts, one for each stream, as they follow
  the three calls of \<^verbatim>\<open>getConsoleMode\<close> in the source. Each returns the session state,
  the actions and, for stdin, the error that ends the function.
\<close>

definition changeStdinMode :: "console \<Rightarrow> sysInfo \<Rightarrow> sysInfo \<times> mode_action list \<times> error option" where
  "changeStdinMode con sys =
     (let newBaseMode = stdinMode sys AND NOT (enableEchoInput OR enableProcessedInput OR enableLineInput);
          newMode = newBaseMode OR enableVirtualTerminalInput
      in case setConsoleMode con Stdin newMode of
           None \<Rightarrow> (sys, [SetConsoleMode Stdin newMode], None)
         | Some err \<Rightarrow>
             (case setConsoleMode con Stdin newBaseMode of
                Some err2 \<Rightarrow>
                  (sys,
                   [SetConsoleMode Stdin newMode,
                    ModeLogged ''failed to set local stdin mode with 'EnableVirtualTerminalInput':'' (Some err),
                    SetConsoleMode Stdin newBaseMode],
                   Some (Wrapped ''failed to set local stdin mode'' err2))
              | None \<Rightarrow>
                  (sys\<lparr>emuStdin := True\<rparr>,
                   [SetConsoleMode Stdin newMode,
                    ModeLogged ''failed to set local stdin mode with 'EnableVirtualTerminalInput':'' (Some err),
                    SetConsoleMode Stdin newBaseMode,
                    ModeLogged ''stdin fallback to internal input emulator'' None],
                   None)))"

definition changeStdoutMode :: "console \<Rightarrow> sysInfo \<Rightarrow> sysInfo \<times> mode_action list" where
  "changeStdoutMode con sys =
     (let newMode = stdoutMode sys OR enableVirtualTerminalProcessing OR disableNewlineAutoReturn
      in case setConsoleMode con Stdout newMode of
           None \<Rightarrow> (sys, [SetConsoleMode Stdout newMode])
         | Some err \<Rightarrow>
             (let newMode2 = stdoutMode sys OR enableVirtualTerminalProcessing
              in case setConsoleMode con Stdout newMode2 of
                   None \<Rightarrow>
                     (sys,
                      [SetConsoleMode Stdout newMode,
                       ModeLogged ''failed to set local stdout mode with 'EnableVirtualTerminalProcessing' and 'DisableNewlineAutoReturn':'' (Some err),
                       SetConsoleMode Stdout newMode2])
                 | Some err2 \<Rightarrow>
                     (sys\<lparr>stdoutMode := 0, emuStdout := True\<rparr>,
                      [SetConsoleMode Stdout newMode,
                       ModeLogged ''failed to set local stdout mode with 'EnableVirtualTerminalProcessing' and 'DisableNewlineAutoReturn':'' (Some err),
                       SetConsoleMode Stdout newMode2,
                       ModeLogged ''failed to set local stdout mode with 'EnableVirtualTerminalProcessing':'' (Some err2),
                       ModeLogged ''stdout fallback to internal output emulator'' None])))"

definition changeStderrMode :: "console \<Rightarrow> sysInfo \<Rightarrow> sysInfo \<times> mode_action list" where
  "changeStderrMode con sys =
     (if emuStdout sys then
        (sys\<lparr>stderrMode := 0\<rparr>, [ModeLogged ''stderr fallback to internal output emulator'' None])
      else
        (let newMode = stdoutMode sys OR enableVirtualTerminalProcessing OR disableNewlineAutoReturn
         in case setConsoleMode con Stderr newMode of
              None \<Rightarrow> (sys, [SetConsoleMode Stderr newMode])
            | Some err \<Rightarrow>
                (let newMode2 = stdoutMode sys OR enableVirtualTerminalProcessing
                 in case setConsoleMode con Stderr newMode2 of
                      None \<Rightarrow>
                        (sys,
                         [SetConsoleMode Stderr newMode,
                          ModeLogged ''failed to set local stderr mode with 'EnableVirtualTerminalProcessing' and 'DisableNewlineAutoReturn':'' (Some err),
                          SetConsoleMode Stderr newMode2])
                    | Some err2 \<Rightarrow>
                        (sys,
                         [SetConsoleMode Stderr newMode,
                          ModeLogged ''failed to set local stderr mode with 'EnableVirtualTerminalProcessing' and 'DisableNewlineAutoReturn':'' (Some err),
                          SetConsoleMode Stderr newMode2,
                          ModeLogged ''failed to set local stderr mode with 'EnableVirtualTerminalProcessing':'' (Some err2),
                          ModeLogged ''stderr fallback to internal output emulator'' None]))))"

definition changeLocalTerminalMode :: "console \<Rightarrow> sysInfo \<Rightarrow> sysInfo \<times> mode_action list \<times> error option" where
  "changeLocalTerminalMode con sys =
     (case getConsoleMode con Stdin of (inMode, inErr) \<Rightarrow>
      (case inErr of
         Some e \<Rightarrow> (sys\<lparr>stdinMode := inMode\<rparr>, [], Some (Wrapped ''failed to get local stdin mode'' e))
       | None \<Rightarrow>
      (case getConsoleMode con Stdout of (outMode, outErr) \<Rightarrow>
      (case outErr of
         Some e \<Rightarrow>
           (sys\<lparr>stdinMode := inMode, stdoutMode := outMode\<rparr>, [],
            Some (Wrapped ''failed to get local stdout mode'' e))
       | None \<Rightarrow>
      (case getConsoleMode con Stderr of (errMode, errErr) \<Rightarrow>
      (case errErr of
         Some e \<Rightarrow>
           (sys\<lparr>stdinMode := inMode, stdoutMode := outMode, stderrMode := errMode\<rparr>, [],
            Some (Wrapped ''failed to get local stderr mode'' e))
       | None \<Rightarrow>
      (case changeStdinMode con (sys\<lparr>stdinMode := inMode, stdoutMode := outMode, stderrMode := errMode\<rparr>) of
         (sys1, acts1, Some e) \<Rightarrow> (sys1, acts1, Some e)
       | (sys1, acts1, None) \<Rightarrow>
      (case changeStdoutMode con sys1 of (sys2, acts2) \<Rightarrow>
      (case changeStderrMode con sys2 of (sys3, acts3) \<Rightarrow>
         (sys3, acts1 @ acts2 @ acts3, None))))))))))"

text \<open>\<^verbatim>\<open>restoreLocalTerminalMode\<close> of the Windows build.\<close>

definition restoreLocalTerminalMode :: "console \<Rightarrow> sysInfo \<Rightarrow> mode_action list \<times> error option" where
  "restoreLocalTerminalMode con sys =
     (let inE = (if stdinMode sys > 0 then setConsoleMode con Stdin (stdinMode sys) else None);
          outE = (if stdoutMode sys > 0 then setConsoleMode con Stdout (stdoutMode sys) else None);
          errE = (if stderrMode sys > 0 then setConsoleMode con Stderr (stderrMode sys) else None);
          acts = (if stdinMode sys > 0 then [SetConsoleMode Stdin (stdinMode sys)] else []) @
                 (if stdoutMode sys > 0 then [SetConsoleMode Stdout (stdoutMode sys)] else []) @
                 (if stderrMode sys > 0 then [SetConsoleMode Stderr (stderrMode sys)] else [])
      in if inE \<noteq> None \<or> outE \<noteq> None \<or> errE \<noteq> None then
           (acts,
            Some (RestoreFailed
              ((case inE of Some e \<Rightarrow> [(''stdin'', e)] | None \<Rightarrow> []) @
               (case outE of Some e \<Rightarrow> [(''stdout'', e)] | None \<Rightarrow> []) @
               (case errE of Some e \<Rightarrow> [(''stderr'', e)] | None \<Rightarrow> []))))
         else (acts, None))"

subsection \<open>The terminal of the other platforms\<close>

text \<open>
  \<^verbatim>\<open>sysInfo\<close> of the build for the other platforms holds \<^verbatim>\<open>origMode *terminal.State\<close>,
  \<^verbatim>\<open>nil\<close> until \<^verbatim>\<open>terminal.MakeRaw\<close> has succeeded. The state itself is opaque, a
  number here. \<open>restore\<close> is the answer of \<^verbatim>\<open>terminal.Restore\<close>.
\<close>

record sysInfoPosix =
  origMode :: "nat option"

datatype posix_action = TerminalRestore nat

definition restoreLocalTerminalModePosix ::
  "(nat \<Rightarrow> error option) \<Rightarrow> sysInfoPosix \<Rightarrow> posix_action list \<times> error option" where
  "restoreLocalTerminalModePosix restore sys =
     (case origMode sys of
        Some st \<Rightarrow> ([TerminalRestore st], restore st)
      | None \<Rightarrow> ([], None))"

subsection \<open>\<^verbatim>\<open>Open\<close> and \<^verbatim>\<open>Close\<close>\<close>

text \<open>\<^verbatim>\<open>Open\<close> creates the session with \<^verbatim>\<open>sys: &sysInfo{}\<close>, every field zero.\<close>

definition newSysInfo :: sysInfo where
  "newSysInfo = \<lparr>stdinMode = 0, stdoutMode = 0, stderrMode = 0,
                  emuStdin = False, emuStdout = False, sysLastRune = 0\<rparr>"

definition newSysInfoPosix :: sysInfoPosix where
  "newSysInfoPosix = \<lparr>origMode = None\<rparr>"

text \<open>
  \<^verbatim>\<open>Close\<close>: what \<^verbatim>\<open>restoreLocalTerminalMode\<close> of the platform did and returned, a line
  for the logger when it returned an error, then the close of the session and of the
  connection when they are not \<^verbatim>\<open>nil\<close>.
\<close>

datatype 'a close_action =
    Restoring 'a
  | CloseLogged error
  | SessClose
  | ConnClose

definition Close :: "'a list \<times> error option \<Rightarrow> bool \<Rightarrow> bool \<Rightarrow> 'a close_action list" where
  "Close restored hasSess hasConn =
     (case restored of (acts, err) \<Rightarrow>
        map Restoring acts @
        (case err of Some e \<Rightarrow> [CloseLogged e] | None \<Rightarrow> []) @
        (if hasSess then [SessClose] else []) @
        (if hasConn then [ConnClose] else []))"

section \<open>Example inputs\<close>

text \<open>
  Key events and session states used where a statement is evaluated at a concrete
  input. \<open>0xE7\<close> is \<^verbatim>\<open>vk_packet\<close>, the key code of a character that has no key;
  \<open>0xD83D 0xDE00\<close> is the surrogate pair of U+1F600.
\<close>

definition keyDownEvent :: "16 word \<Rightarrow> wchar \<Rightarrow> dword \<Rightarrow> keyEventRecord" where
  "keyDownEvent vk c cks =
     \<lparr>keyDown = 1, repeatCount = 1, virtualKeyCode = vk, virtualScanCode = 0,
      unicodeChar = c, controlKeyState = cks\<rparr>"

definition keyUpEvent :: "16 word \<Rightarrow> wchar \<Rightarrow> dword \<Rightarrow> keyEventRecord" where
  "keyUpEvent vk c cks = (keyDownEvent vk c cks)\<lparr>keyDown := 0\<rparr>"

definition keyRecord :: "keyEventRecord \<Rightarrow> inputRecord" where
  "keyRecord ev = \<lparr>eventType = keyEvent, event = ev\<rparr>"

definition emulatedInput :: sysInfo where
  "emulatedInput = \<lparr>stdinMode = 0x01F7, stdoutMode = 0x0003, stderrMode = 0x0003,
                     emuStdin = True, emuStdout = False, sysLastRune = 0\<rparr>"

definition passthroughInput :: sysInfo where
  "passthroughInput = \<lparr>stdinMode = 0x01F7, stdoutMode = 0x0003, stderrMode = 0x0003,
                        emuStdin = False, emuStdout = False, sysLastRune = 0\<rparr>"

definition lsTurn :: pump_turn where
  "lsTurn = (Inl EOF, Inr [0x6C, 0x73, 0x0A], None)"

definition goodEnv :: session_env where
  "goodEnv = \<lparr>envTERM = ''vt100'', confNoTTY = False, confHost = ''example.org'',
     windowSize = (80, 24, None), requestPtyErr = None, stdinPipeErr = None, stdoutPipeErr = None,
     stderrPipeErr = None, shellErr = None, changeModeErr = None, race = SessionExited None\<rparr>"

section \<open>Reading a trace of console calls\<close>

text \<open>
  The modes a trace asks \<^verbatim>\<open>setConsoleMode\<close> to set on one handle, in order; and names
  for the modes \<^verbatim>\<open>changeLocalTerminalMode\<close> computes from what \<^verbatim>\<open>getConsoleMode\<close>
  returned: input with and without \<^verbatim>\<open>enableVirtualTerminalInput\<close>, output with
  \<^verbatim>\<open>enableVirtualTerminalProcessing\<close>, with and without \<^verbatim>\<open>disableNewlineAutoReturn\<close>.
\<close>

fun modesSetOn :: "stdfd \<Rightarrow> mode_action list \<Rightarrow> dword list" where
  "modesSetOn h [] = []"
| "modesSetOn h (SetConsoleMode h' m # acts) =
     (if h' = h then m # modesSetOn h acts else modesSetOn h acts)"
| "modesSetOn h (ModeLogged msg err # acts) = modesSetOn h acts"

definition vtInputMode :: "console \<Rightarrow> dword" where
  "vtInputMode con =
     (fst (getConsoleMode con Stdin) AND NOT (enableEchoInput OR enableProcessedInput OR enableLineInput))
       OR enableVirtualTerminalInput"

definition rawInputMode :: "console \<Rightarrow> dword" where
  "rawInputMode con =
     fst (getConsoleMode con Stdin) AND NOT (enableEchoInput OR enableProcessedInput OR enableLineInput)"

definition vtOutputMode :: "console \<Rightarrow> dword" where
  "vtOutputMode con =
     fst (getConsoleMode con Stdout) OR enableVirtualTerminalProcessing OR disableNewlineAutoReturn"

definition vtOutputMode2 :: "console \<Rightarrow> dword" where
  "vtOutputMode2 con = fst (getConsoleMode con Stdout) OR enableVirtualTerminalProcessing"

text \<open>
  Two consoles for examples: one refuses every input mode with
  \<^verbatim>\<open>enableVirtualTerminalInput\<close> and accepts every output mode, the other refuses every
  output mode with \<^verbatim>\<open>enableVirtualTerminalProcessing\<close> and accepts every input mode.
\<close>

definition inputOnlyLegacy :: console where
  "inputOnlyLegacy =
     \<lparr>getConsoleMode = (\<lambda>h. (if h = Stdin then 0x01F7 else 0x0003, None)),
      setConsoleMode = (\<lambda>h m. if h = Stdin \<and> m AND enableVirtualTerminalInput \<noteq> 0
                                then Some (Errno 87) else None)\<rparr>"

definition outputOnlyLegacy :: console where
  "outputOnlyLegacy =
     \<lparr>getConsoleMode = (\<lambda>h. (if h = Stdin then 0x01F7 else 0x0003, None)),
      setConsoleMode = (\<lambda>h m. if h \<noteq> Stdin \<and> m AND enableVirtualTerminalProcessing \<noteq> 0
                                then Some (Errno 87) else None)\<rparr>"

text \<open>
  Two consoles on which \<^verbatim>\<open>changeLocalTerminalMode\<close> fails: on the first
  \<^verbatim>\<open>getConsoleMode\<close> fails for stderr after it has answered for stdin and stdout, on the
  second \<^verbatim>\<open>setConsoleMode\<close> refuses every mode on stdin.
\<close>

definition stderrUnreadable :: console where
  "stderrUnreadable =
     \<lparr>getConsoleMode = (\<lambda>h. if h = Stdin then (0x01F7, None)
                               else if h = Stdout then (0x0003, None)
                               else (0, Some (Errno 6))),
      setConsoleMode = (\<lambda>h m. None)\<rparr>"

definition stdinRefusesSet :: console where
  "stdinRefusesSet =
     \<lparr>getConsoleMode = (\<lambda>h. (if h = Stdin then 0x01F7 else 0x0003, None)),
      setConsoleMode = (\<lambda>h m. if h = Stdin then Some (Errno 5) else None)\<rparr>"

section \<open>The mapping table of the specification\<close>

text \<open>
  The table as the specification words it, row by row in its order, an earlier row
  winning over a later one. Keys are given by their Windows virtual-key codes and bytes
  by their ASCII values, none of them taken from the constants of the source:
  \<^item> Up \<open>0x26\<close>, Down \<open>0x28\<close>, Right \<open>0x27\<close>, Left \<open>0x25\<close>, Home \<open>0x24\<close>, End \<open>0x23\<close>,
    with the letters A \<open>0x41\<close>, B \<open>0x42\<close>, C \<open>0x43\<close>, D \<open>0x44\<close>, H \<open>0x48\<close>, F \<open>0x46\<close>;
  \<^item> Backspace \<open>0x08\<close>, Pause \<open>0x13\<close>, Escape \<open>0x1B\<close>, Insert \<open>0x2D\<close>, Delete \<open>0x2E\<close>,
    PageUp \<open>0x21\<close>, PageDown \<open>0x22\<close>;
  \<^item> F1 to F4 \<open>0x70\<close> to \<open>0x73\<close>, with the letters P \<open>0x50\<close>, Q \<open>0x51\<close>, R \<open>0x52\<close>,
    S \<open>0x53\<close>; F5 to F12 \<open>0x74\<close> to \<open>0x7B\<close>, with the codes 15, 17, 18, 19, 20, 21, 23, 24
    printed as two decimal digits;
  \<^item> ESC is \<open>0x1B\<close>, \<open>[\<close> is \<open>0x5B\<close>, \<open>O\<close> is \<open>0x4F\<close>, \<open>~\<close> is \<open>0x7E\<close>, \<open>;\<close> is \<open>0x3B\<close>,
    the digits \<open>0\<close> to \<open>9\<close> are \<open>0x30\<close> to \<open>0x39\<close>;
  \<^item> Ctrl is held when one of the bits \<open>0x0008\<close> (left) and \<open>0x0004\<close> (right) of the
    control key state is set, Alt when one of \<open>0x0002\<close> (left) and \<open>0x0001\<close> (right) is.
\<close>

definition spec_ctrl :: "keyEventRecord \<Rightarrow> bool" where
  "spec_ctrl k = (controlKeyState k AND 0x000C \<noteq> 0)"

definition spec_alt :: "keyEventRecord \<Rightarrow> bool" where
  "spec_alt k = (controlKeyState k AND 0x0003 \<noteq> 0)"

definition spec_arrow_letter :: "(int \<times> byte) list" where
  "spec_arrow_letter =
     [(0x26, 0x41), (0x28, 0x42), (0x27, 0x43), (0x25, 0x44), (0x24, 0x48), (0x23, 0x46)]"

definition spec_f1_f4_letter :: "(int \<times> byte) list" where
  "spec_f1_f4_letter = [(0x70, 0x50), (0x71, 0x51), (0x72, 0x52), (0x73, 0x53)]"

definition spec_f5_f12_code :: "(int \<times> nat) list" where
  "spec_f5_f12_code =
     [(0x74, 15), (0x75, 17), (0x76, 18), (0x77, 19), (0x78, 20), (0x79, 21), (0x7A, 23), (0x7B, 24)]"

definition two_digits :: "nat \<Rightarrow> byte list" where
  "two_digits n = [0x30 + of_nat (n div 10), 0x30 + of_nat (n mod 10)]"

definition translate_spec :: "keyEventRecord \<Rightarrow> byte list option" where
  "translate_spec k = (let vk = uint (virtualKeyCode k) in
     (case map_of spec_arrow_letter vk of
        Some l \<Rightarrow>
          (if spec_ctrl k then Some [0x1B, 0x5B, 0x31, 0x3B, 0x35, l] else Some [0x1B, 0x5B, l])
      | None \<Rightarrow>
     (if vk = 0x08 then (if spec_alt k \<and> \<not> spec_ctrl k then Some [0x1B, 0x08] else Some [0x7F])
      else if vk = 0x13 then Some [0x1A]
      else if vk = 0x1B then Some [0x1B]
      else if vk = 0x2D then Some [0x1B, 0x5B, 0x32, 0x7E]
      else if vk = 0x2E then Some [0x1B, 0x5B, 0x33, 0x7E]
      else if vk = 0x21 then Some [0x1B, 0x5B, 0x35, 0x7E]
      else if vk = 0x22 then Some [0x1B, 0x5B, 0x36, 0x7E]
      else
     (case map_of spec_f1_f4_letter vk of
        Some l \<Rightarrow> Some [0x1B, 0x4F, l]
      | None \<Rightarrow>
     (case map_of spec_f5_f12_code vk of
        Some c \<Rightarrow> Some ([0x1B, 0x5B] @ two_digits c @ [0x7E])
      | None \<Rightarrow>
          (if 0x20 \<le> unicodeChar k \<and> unicodeChar k \<le> 0x7E \<and> spec_alt k \<and> \<not> spec_ctrl k
           then Some [0x1B, ucast (unicodeChar k)]
           else None))))))"

section \<open>Facts about the translator\<close>

lemma fmt_c_ascii: "0 \<le> v \<Longrightarrow> v \<le> 0x7F \<Longrightarrow> fmt_c v = [of_int v]"
  by (simp add: fmt_c_def EncodeRune_def)

lemma fmt_c_wchar_ascii:
  fixes c :: wchar
  assumes "c \<le> 0x7E"
  shows "fmt_c (uint c) = [ucast c]"
proof -
  have "uint c \<le> 0x7E" using assms by (simp add: word_le_def)
  then have "fmt_c (uint c) = [of_int (uint c)]"
    using fmt_c_ascii [of "uint c"] by simp
  then show ?thesis by simp
qed

lemma ctrl_mask: "left_ctrl_pressed OR right_ctrl_pressed = 0x000C"
  by (simp add: cks_defs)

lemma alt_mask: "left_alt_pressed OR right_alt_pressed = 0x0003"
  by (simp add: cks_defs)

lemma toAnsiSeq_eq_translate_spec: "toAnsiSeq ar k = translate_spec k"
  unfolding toAnsiSeq_def translate_spec_def Let_def ctrl_mask alt_mask spec_ctrl_def spec_alt_def
  by (simp add: vk_defs spec_arrow_letter_def spec_f1_f4_letter_def spec_f5_f12_code_def
      two_digits_def lookup0_def lookup00_def arrowKeyMap_def f1ToF4KeyMap_def f5toF12KeyMap_def
      bytes_of_def ESC_def fmt_c_ascii fmt_c_wchar_ascii)

text \<open>
  Claim C1. For every key event, \<^verbatim>\<open>toAnsiSeq\<close> returns what the mapping table of the
  specification gives: \<open>ESC [ letter\<close> for an arrow key, Home or End and
  \<open>ESC [ 1 ; 5 letter\<close> with Ctrl; \<open>0x7F\<close> for Backspace and \<open>ESC 0x08\<close> with Alt and no
  Ctrl; \<open>0x1A\<close> for Pause; \<open>0x1B\<close> for Escape; \<open>ESC [ 2~\<close>, \<open>3~\<close>, \<open>5~\<close>, \<open>6~\<close> for
  Insert, Delete, PageUp, PageDown; \<open>ESC O P/Q/R/S\<close> for F1 to F4; \<open>ESC [ code ~\<close> for
  F5 to F12; \<open>ESC char\<close> for a printable ASCII character with Alt and no Ctrl (on a
  key that none of the rows before names); nil for every other event. In particular Ctrl
  with the right arrow gives \<open>ESC [ 1 ; 5 C\<close>.
\<close>

theorem toAnsiSeq_mapping_table:
  "toAnsiSeq ar k = translate_spec k \<and>
   toAnsiSeq ar \<lparr>keyDown = 1, repeatCount = 1, virtualKeyCode = 0x27, virtualScanCode = 0x4D,
                 unicodeChar = 0, controlKeyState = left_ctrl_pressed\<rparr>
     = Some [0x1B, 0x5B, 0x31, 0x3B, 0x35, 0x43]"
proof
  show "toAnsiSeq ar k = translate_spec k"
    by (rule toAnsiSeq_eq_translate_spec)
  show "toAnsiSeq ar \<lparr>keyDown = 1, repeatCount = 1, virtualKeyCode = 0x27, virtualScanCode = 0x4D,
                 unicodeChar = 0, controlKeyState = left_ctrl_pressed\<rparr>
     = Some [0x1B, 0x5B, 0x31, 0x3B, 0x35, 0x43]"
    by (simp add: toAnsiSeq_def vk_defs cks_defs lookup0_def arrowKeyMap_def bytes_of_def
        ESC_def fmt_c_ascii)
qed

section \<open>Facts about the reader\<close>

lemma toAnsiSeq_reader_independent: "toAnsiSeq ar k = toAnsiSeq ar' k"
  by (simp add: toAnsiSeq_def)

lemma readRecords_append:
  "readRecords ar b (xs @ ys) =
     (case readRecords ar b xs of (ar', b') \<Rightarrow> readRecords ar' b' ys)"
  by (induction xs arbitrary: ar b) (auto split: prod.splits)

lemma readKeyEvent_keyup: "keyDown ev \<noteq> 1 \<Longrightarrow> readKeyEvent ar b ev = (ar, b)"
  by (simp add: readKeyEvent_def)

lemma readKeyEvent_mapped:
  "keyDown ev = 1 \<Longrightarrow> toAnsiSeq ar ev = Some seq \<Longrightarrow> readKeyEvent ar b ev = (ar, b @ seq)"
  by (simp add: readKeyEvent_def)

lemma readKeyEvent_output_depends_on_lastRune:
  assumes "lastRune ar = lastRune ar'"
  shows "snd (readKeyEvent ar b ev) = snd (readKeyEvent ar' b ev)"
proof -
  have "toAnsiSeq ar ev = toAnsiSeq ar' ev"
    by (rule toAnsiSeq_reader_independent)
  with assms show ?thesis
    by (simp add: readKeyEvent_def Let_def split: option.splits)
qed

text \<open>
  Claim C2. The translation of a key-down event does not depend on the reader or on
  what it has read before, the pending surrogate half apart: \<^verbatim>\<open>toAnsiSeq\<close> gives the
  same answer for every reader; a mapped key-down event appends exactly its sequence
  after any history of records and leaves the reader as the history left it; two readers
  with the same pending half emit the same bytes for the same event. A key-up event
  leaves the reader and the output as they were, and a read of one key-up event returns
  no bytes.
\<close>

theorem key_translation_pure:
  "toAnsiSeq ar ev = toAnsiSeq ar' ev \<and>
   (keyDown ev = 1 \<longrightarrow> toAnsiSeq ar ev = Some seq \<longrightarrow>
      readRecords ar b (history @ [\<lparr>eventType = keyEvent, event = ev\<rparr>])
        = (fst (readRecords ar b history), snd (readRecords ar b history) @ seq)) \<and>
   (lastRune ar = lastRune ar' \<longrightarrow>
      snd (readKeyEvent ar b ev) = snd (readKeyEvent ar' b ev)) \<and>
   (keyDown ev \<noteq> 1 \<longrightarrow> readKeyEvent ar b ev = (ar, b)) \<and>
   (keyDown ev \<noteq> 1 \<longrightarrow>
      Read ar (Inr [\<lparr>eventType = keyEvent, event = ev\<rparr>]) = (ar, Inr []))"
proof (intro conjI impI)
  show "toAnsiSeq ar ev = toAnsiSeq ar' ev"
    by (rule toAnsiSeq_reader_independent)
next
  assume down: "keyDown ev = 1" and mapped: "toAnsiSeq ar ev = Some seq"
  obtain ar1 b1 where h: "readRecords ar b history = (ar1, b1)"
    by (cases "readRecords ar b history")
  have "toAnsiSeq ar1 ev = Some seq"
    using mapped toAnsiSeq_reader_independent [of ar1 ev ar] by simp
  then have "readKeyEvent ar1 b1 ev = (ar1, b1 @ seq)"
    using down by (rule readKeyEvent_mapped [rotated])
  then show "readRecords ar b (history @ [\<lparr>eventType = keyEvent, event = ev\<rparr>])
        = (fst (readRecords ar b history), snd (readRecords ar b history) @ seq)"
    by (simp add: readRecords_append h readRecord_def)
next
  assume "lastRune ar = lastRune ar'"
  then show "snd (readKeyEvent ar b ev) = snd (readKeyEvent ar' b ev)"
    by (rule readKeyEvent_output_depends_on_lastRune)
next
  assume "keyDown ev \<noteq> 1"
  then show "readKeyEvent ar b ev = (ar, b)"
    by (rule readKeyEvent_keyup)
next
  assume "keyDown ev \<noteq> 1"
  then show "Read ar (Inr [\<lparr>eventType = keyEvent, event = ev\<rparr>]) = (ar, Inr [])"
    by (simp add: Read_def readRecord_def readKeyEvent_keyup)
qed

lemmas example_defs = keyDownEvent_def keyUpEvent_def keyRecord_def NewAnsiReader_def
  readRecord_def readKeyEvent_def keyEvent_def toAnsiSeq_def vk_defs Read_def
  IsSurrogate_def DecodeRune_def EncodeRune_def surr1_def surr2_def surr3_def surrSelf_def
  replacementChar_def cks_defs lookup0_def arrowKeyMap_def bytes_of_def ESC_def fmt_c_def
  readFromStdin_def emulatedInput_def passthroughInput_def lsTurn_def stdin_fd_def

theorem key_translation_pure_witness:
  "keyDown (keyDownEvent 0x27 0 left_ctrl_pressed) = 1 \<and>
   toAnsiSeq (NewAnsiReader 0) (keyDownEvent 0x27 0 left_ctrl_pressed)
     = Some [0x1B, 0x5B, 0x31, 0x3B, 0x35, 0x43] \<and>
   readRecords (NewAnsiReader 0) []
      ([keyRecord (keyDownEvent 0xE7 0xD83D 0)] @ [keyRecord (keyDownEvent 0x27 0 left_ctrl_pressed)])
     = (\<lparr>fd = 0, lastRune = 0xD83D\<rparr>, [0x1B, 0x5B, 0x31, 0x3B, 0x35, 0x43]) \<and>
   lastRune (NewAnsiReader 0) = lastRune (NewAnsiReader 7) \<and>
   snd (readKeyEvent (NewAnsiReader 0) [] (keyDownEvent 0x27 0 left_ctrl_pressed))
     = snd (readKeyEvent (NewAnsiReader 7) [] (keyDownEvent 0x27 0 left_ctrl_pressed)) \<and>
   keyDown (keyUpEvent 0x41 0x61 0) \<noteq> 1 \<and>
   readKeyEvent \<lparr>fd = 0, lastRune = 0xD83D\<rparr> [0x61] (keyUpEvent 0x41 0x61 0)
     = (\<lparr>fd = 0, lastRune = 0xD83D\<rparr>, [0x61]) \<and>
   Read \<lparr>fd = 0, lastRune = 0xD83D\<rparr> (Inr [keyRecord (keyUpEvent 0x41 0x61 0)])
     = (\<lparr>fd = 0, lastRune = 0xD83D\<rparr>, Inr [])"
  using key_translation_pure [of "NewAnsiReader 0" "keyDownEvent 0x27 0 left_ctrl_pressed"
      "NewAnsiReader 7" "[0x1B, 0x5B, 0x31, 0x3B, 0x35, 0x43]" "[]"
      "[keyRecord (keyDownEvent 0xE7 0xD83D 0)]"]
    key_translation_pure [of "\<lparr>fd = 0, lastRune = 0xD83D\<rparr>" "keyUpEvent 0x41 0x61 0"
      "\<lparr>fd = 0, lastRune = 0xD83D\<rparr>" "[]" "[0x61]" "[]"]
  by (simp add: example_defs)

lemma readKeyEvent_first_half:
  assumes "keyDown ev = 1" and "toAnsiSeq ar ev = None" and "lastRune ar = 0"
    and "IsSurrogate (uint (unicodeChar ev))"
  shows "readKeyEvent ar b ev = (ar\<lparr>lastRune := uint (unicodeChar ev)\<rparr>, b)"
  using assms by (simp add: readKeyEvent_def)

lemma push_bit_or_add:
  fixes a b :: int
  assumes "0 \<le> b" and "b < 2 ^ n"
  shows "push_bit n a OR b = push_bit n a + b"
proof -
  have "push_bit n a + b = push_bit n a OR b"
  proof (rule disjunctive_add_eq_or)
    have tb: "take_bit n b = b" using assms by (simp add: take_bit_int_eq_self)
    have "push_bit n a AND take_bit n b = 0"
      by (simp add: bit_eq_iff bit_simps)
    then show "push_bit n a AND b = 0" by (simp add: tb)
  qed
  then show ?thesis by simp
qed

lemma DecodeRune_pair:
  assumes "0xD800 \<le> hi" and "hi < 0xDC00" and "0xDC00 \<le> lo" and "lo < 0xE000"
  shows "DecodeRune hi lo = 0x10000 + (hi - 0xD800) * 0x400 + (lo - 0xDC00)"
proof -
  have "push_bit 10 (hi - 0xD800) OR (lo - 0xDC00) = push_bit 10 (hi - 0xD800) + (lo - 0xDC00)"
    using assms by (intro push_bit_or_add) simp_all
  then show ?thesis
    using assms by (simp add: DecodeRune_def surr1_def surr2_def surr3_def surrSelf_def push_bit_eq_mult)
qed

lemma EncodeRune_length: "length (EncodeRune r) \<le> 4"
  by (simp add: EncodeRune_def encode3_def Let_def)

lemma EncodeRune_supplementary:
  assumes "0x10000 \<le> r" and "r \<le> 0x10FFFF"
  shows "length (EncodeRune r) = 4"
  using assms by (simp add: EncodeRune_def encode3_def Let_def)

lemma readKeyEvent_second_half:
  assumes "keyDown ev = 1" and "toAnsiSeq ar ev = None"
    and "0xD800 \<le> lastRune ar" and "lastRune ar < 0xDC00"
    and "0xDC00 \<le> uint (unicodeChar ev)" and "uint (unicodeChar ev) < 0xE000"
  shows "readKeyEvent ar b ev =
           (ar\<lparr>lastRune := 0\<rparr>,
            b @ EncodeRune (0x10000 + (lastRune ar - 0xD800) * 0x400 + (uint (unicodeChar ev) - 0xDC00)))"
    and "length (EncodeRune (0x10000 + (lastRune ar - 0xD800) * 0x400 + (uint (unicodeChar ev) - 0xDC00))) = 4"
proof -
  let ?r = "0x10000 + (lastRune ar - 0xD800) * 0x400 + (uint (unicodeChar ev) - 0xDC00)"
  have d: "DecodeRune (lastRune ar) (uint (unicodeChar ev)) = ?r"
    using assms(3-6) by (rule DecodeRune_pair)
  have range: "0x10000 \<le> ?r" "?r \<le> 0x10FFFF"
    using assms(3-6) by simp_all
  show "readKeyEvent ar b ev = (ar\<lparr>lastRune := 0\<rparr>, b @ EncodeRune ?r)"
    using assms(1-3) range(1) by (simp add: readKeyEvent_def d Let_def)
  show "length (EncodeRune ?r) = 4"
    using range by (rule EncodeRune_supplementary)
qed

text \<open>
  A record appends at most six bytes, so the two records of one \<^verbatim>\<open>Read\<close> append at most
  twelve to a buffer of 128.
\<close>

lemma translate_spec_length: "translate_spec k = Some seq \<Longrightarrow> length seq \<le> 6"
  by (auto simp: translate_spec_def Let_def two_digits_def split: option.splits if_splits)

lemma readKeyEvent_length: "length (snd (readKeyEvent ar b ev)) \<le> length b + 6"
proof (cases "toAnsiSeq ar ev")
  case None
  then show ?thesis
    using EncodeRune_length [of "uint (unicodeChar ev)"]
      EncodeRune_length [of "DecodeRune (lastRune ar) (uint (unicodeChar ev))"]
    by (simp add: readKeyEvent_def Let_def)
next
  case (Some seq)
  then have "length seq \<le> 6"
    using translate_spec_length [of ev seq] by (simp add: toAnsiSeq_eq_translate_spec)
  with Some show ?thesis by (simp add: readKeyEvent_def)
qed

lemma readRecords_length:
  "length (snd (readRecords ar b records)) \<le> length b + 6 * length records"
proof (induction records arbitrary: ar b)
  case Nil
  show ?case by simp
next
  case (Cons r records)
  obtain ar' b' where step: "readRecord ar b r = (ar', b')" by (cases "readRecord ar b r")
  have "length b' \<le> length b + 6"
    using step readKeyEvent_length [of ar b "event r"]
    by (auto simp: readRecord_def split: if_splits)
  moreover have "length (snd (readRecords ar' b' records)) \<le> length b' + 6 * length records"
    by (rule Cons.IH)
  ultimately show ?case by (simp add: step)
qed

text \<open>
  Claim C3. Within one reader the pair is rebuilt: a key-down event that carries a high
  surrogate is kept in \<open>lastRune\<close> and emits nothing, and the low surrogate read next by
  the same reader emits the four bytes of the character. But \<^verbatim>\<open>readFromStdin\<close> makes a
  new reader for every call, so a half kept by one call is gone at the next: with the two
  halves of U+1F600 in two calls, neither call returns a byte, the pump writes nothing to
  the remote side, and the low surrogate is kept as if it were a first half.
\<close>

theorem surrogate_pair_lost_between_reads:
  "readFromStdin emulatedInput (Inr [keyRecord (keyDownEvent 0xE7 0xD83D 0)]) raw = Inr [] \<and>
   readFromStdin emulatedInput (Inr [keyRecord (keyDownEvent 0xE7 0xDE00 0)]) raw' = Inr [] \<and>
   stdinPump emulatedInput
      [(Inr [keyRecord (keyDownEvent 0xE7 0xD83D 0)], raw, wr),
       (Inr [keyRecord (keyDownEvent 0xE7 0xDE00 0)], raw', wr')] = ([], False) \<and>
   snd (Read (fst (Read (NewAnsiReader stdin_fd) (Inr [keyRecord (keyDownEvent 0xE7 0xD83D 0)])))
             (Inr [keyRecord (keyDownEvent 0xE7 0xDE00 0)]))
     = Inr [0xF0, 0x9F, 0x98, 0x80]"
  by (simp add: example_defs)

section \<open>Facts about the session runner\<close>

lemma prepareRemoteTerminal_facts:
  "ChangeLocalTerminalMode \<notin> set (fst (prepareRemoteTerminal env)) \<and>
   \<not> list_ex is_pump_start (fst (prepareRemoteTerminal env)) \<and>
   (snd (prepareRemoteTerminal env) = None \<longleftrightarrow>
      snd (snd (windowSize env)) = None \<and> (confNoTTY env \<or> requestPtyErr env = None) \<and>
      stdinPipeErr env = None \<and> stdoutPipeErr env = None \<and> stderrPipeErr env = None \<and>
      shellErr env = None)"
proof -
  obtain w h err where ws: "windowSize env = (w, h, err)" by (cases "windowSize env")
  show ?thesis
    by (cases err; cases "confNoTTY env"; cases "requestPtyErr env"; cases "stdinPipeErr env";
        cases "stdoutPipeErr env"; cases "stderrPipeErr env"; cases "shellErr env";
        simp add: prepareRemoteTerminal_def ws)
qed

lemma RunInteractive_stdin_pump_once: "count_list (fst (RunInteractive env)) GoStdinPump \<le> 1"
proof -
  obtain t1 r1 where p: "prepareRemoteTerminal env = (t1, r1)"
    by (cases "prepareRemoteTerminal env")
  have "GoStdinPump \<notin> set t1"
    using prepareRemoteTerminal_facts [of env] by (auto simp: p list_ex_iff)
  then have c0: "count_list t1 GoStdinPump = 0"
    by (simp add: count_list_0_iff)
  show ?thesis
    by (cases r1; cases "changeModeErr env"; cases "race env")
      (simp_all add: RunInteractive_def p prepareLocalTerminal_def invokeResizeTerminal_def
        invokeInOutPipes_def c0)
qed

lemma RunInteractive_remote_failure:
  assumes "snd (prepareRemoteTerminal env) \<noteq> None"
  shows "RunInteractive env = prepareRemoteTerminal env"
  using assms by (cases "prepareRemoteTerminal env") (auto simp: RunInteractive_def)

lemma RunInteractive_local_failure:
  assumes "snd (prepareRemoteTerminal env) = None" and "changeModeErr env = Some e"
  shows "RunInteractive env =
           (fst (prepareRemoteTerminal env) @ [ChangeLocalTerminalMode],
            Some (Wrapped ''failed to change local terminal mode'' e))"
  using assms
  by (cases "prepareRemoteTerminal env") (simp add: RunInteractive_def prepareLocalTerminal_def)

text \<open>
  Claim C6. When the remote terminal has been prepared and \<^verbatim>\<open>changeLocalTerminalMode\<close>
  fails, \<^verbatim>\<open>RunInteractive\<close> returns that error right after the attempt: nothing follows
  it, no signal watch, no goroutine, no cancel or wait, so no pump is started. And when
  the request for the pseudo-terminal (made unless \<^verbatim>\<open>NoTTY\<close> is set) or the opening of
  one of the three remote pipes fails, \<^verbatim>\<open>RunInteractive\<close> returns an error, the local
  terminal mode is never changed and no pump is started.
\<close>

theorem setup_failure_is_fatal:
  "(snd (prepareRemoteTerminal env) = None \<longrightarrow> changeModeErr env = Some e \<longrightarrow>
      RunInteractive env =
        (fst (prepareRemoteTerminal env) @ [ChangeLocalTerminalMode],
         Some (Wrapped ''failed to change local terminal mode'' e)) \<and>
      \<not> list_ex is_pump_start (fst (RunInteractive env))) \<and>
   ((\<not> confNoTTY env \<and> requestPtyErr env \<noteq> None) \<or> stdinPipeErr env \<noteq> None \<or>
    stdoutPipeErr env \<noteq> None \<or> stderrPipeErr env \<noteq> None \<longrightarrow>
      snd (RunInteractive env) \<noteq> None \<and>
      ChangeLocalTerminalMode \<notin> set (fst (RunInteractive env)) \<and>
      \<not> list_ex is_pump_start (fst (RunInteractive env)))"
proof (intro conjI impI)
  assume ok: "snd (prepareRemoteTerminal env) = None" and bad: "changeModeErr env = Some e"
  show "RunInteractive env =
        (fst (prepareRemoteTerminal env) @ [ChangeLocalTerminalMode],
         Some (Wrapped ''failed to change local terminal mode'' e))"
    using ok bad by (rule RunInteractive_local_failure)
  then show "\<not> list_ex is_pump_start (fst (RunInteractive env))"
    using prepareRemoteTerminal_facts [of env] by (simp add: list_ex_iff)
next
  assume "(\<not> confNoTTY env \<and> requestPtyErr env \<noteq> None) \<or> stdinPipeErr env \<noteq> None \<or>
    stdoutPipeErr env \<noteq> None \<or> stderrPipeErr env \<noteq> None"
  then have failed: "snd (prepareRemoteTerminal env) \<noteq> None"
    using prepareRemoteTerminal_facts [of env] by auto
  then have same: "RunInteractive env = prepareRemoteTerminal env"
    by (rule RunInteractive_remote_failure)
  show "snd (RunInteractive env) \<noteq> None" using failed same by simp
  show "ChangeLocalTerminalMode \<notin> set (fst (RunInteractive env))"
    using prepareRemoteTerminal_facts [of env] same by simp
  show "\<not> list_ex is_pump_start (fst (RunInteractive env))"
    using prepareRemoteTerminal_facts [of env] same by simp
qed

theorem setup_failure_is_fatal_witness:
  "snd (prepareRemoteTerminal (goodEnv\<lparr>changeModeErr := Some (Errno 6)\<rparr>)) = None \<and>
   changeModeErr (goodEnv\<lparr>changeModeErr := Some (Errno 6)\<rparr>) = Some (Errno 6) \<and>
   RunInteractive (goodEnv\<lparr>changeModeErr := Some (Errno 6)\<rparr>) =
     ([GetWindowSize, RequestPty ''vt100'' 24 80, StdinPipe, StdoutPipe, StderrPipe, Shell,
       ChangeLocalTerminalMode],
      Some (Wrapped ''failed to change local terminal mode'' (Errno 6))) \<and>
   stdoutPipeErr (goodEnv\<lparr>stdoutPipeErr := Some (Failure ''closed'')\<rparr>) \<noteq> None \<and>
   snd (RunInteractive (goodEnv\<lparr>stdoutPipeErr := Some (Failure ''closed'')\<rparr>)) \<noteq> None \<and>
   ChangeLocalTerminalMode
     \<notin> set (fst (RunInteractive (goodEnv\<lparr>stdoutPipeErr := Some (Failure ''closed'')\<rparr>)))"
  using setup_failure_is_fatal [of "goodEnv\<lparr>changeModeErr := Some (Errno 6)\<rparr>" "Errno 6"]
    setup_failure_is_fatal [of "goodEnv\<lparr>stdoutPipeErr := Some (Failure ''closed'')\<rparr>" "Errno 6"]
  by (simp add: goodEnv_def prepareRemoteTerminal_def)

section \<open>Facts about the local-input pump\<close>

lemma stdinPump_close_count: "count_list (fst (stdinPump sys turns)) RStdinClose \<le> 1"
proof (induction turns)
  case Nil
  show ?case by simp
next
  case (Cons t turns)
  obtain console raw wr where t: "t = (console, raw, wr)" by (cases t)
  show ?case
    using Cons.IH unfolding t
    by (auto split: sum.splits option.splits prod.splits)
qed

lemma stdinPump_running_prefix:
  assumes "\<forall>t\<in>set pre. turn_continues sys t"
  shows "stdinPump sys (pre @ rest) =
           (fst (stdinPump sys pre) @ fst (stdinPump sys rest), snd (stdinPump sys rest))
         \<and> RStdinClose \<notin> set (fst (stdinPump sys pre))"
  using assms
proof (induction pre)
  case Nil
  show ?case by simp
next
  case (Cons t pre)
  obtain console raw wr where t: "t = (console, raw, wr)" by (cases t)
  from Cons.prems have here: "turn_continues sys (console, raw, wr)"
    and later: "\<forall>t\<in>set pre. turn_continues sys t" by (simp_all add: t)
  note IH = Cons.IH [OF later]
  show ?case
    using here IH unfolding t
    by (auto simp: turn_continues_def split: sum.splits option.splits prod.splits)
qed

lemma stdinPump_read_error:
  assumes "readFromStdin sys console raw = Inl err"
  shows "stdinPump sys ((console, raw, wr) # post) =
           ((if err \<noteq> EOF then [PumpLogged ''failed to read bytes from local stdin'' err] else [])
              @ [RStdinClose], True)"
  using assms by simp

text \<open>
  Claim C4. When the pump has run through turns that neither failed to read nor failed
  to write, and the next read returns end-of-stream or an error, the goroutine returns;
  its last action is the close of the remote stdin pipe; the pipe is closed exactly once;
  and what the outside would answer afterwards changes nothing, since the goroutine has
  ended. Whatever the outside answers, the pipe is never closed twice, and a run of
  \<^verbatim>\<open>RunInteractive\<close> starts the pump at most once. (A failed write ends the goroutine
  too, and it then leaves the pipe open.)
\<close>

theorem stdin_pump_closes_once:
  assumes "\<forall>t\<in>set pre. turn_continues sys t"
    and "readFromStdin sys console raw = Inl err"
  shows "snd (stdinPump sys (pre @ (console, raw, wr) # post)) \<and>
         last (fst (stdinPump sys (pre @ (console, raw, wr) # post))) = RStdinClose \<and>
         count_list (fst (stdinPump sys (pre @ (console, raw, wr) # post))) RStdinClose = 1 \<and>
         stdinPump sys (pre @ (console, raw, wr) # post) = stdinPump sys (pre @ [(console, raw, wr)]) \<and>
         count_list (fst (stdinPump sys turns)) RStdinClose \<le> 1 \<and>
         count_list (fst (RunInteractive env)) GoStdinPump \<le> 1"
proof -
  let ?stop = "(if err \<noteq> EOF then [PumpLogged ''failed to read bytes from local stdin'' err] else [])
              @ [RStdinClose]"
  have run: "\<And>rest. stdinPump sys (pre @ (console, raw, wr) # rest) = (fst (stdinPump sys pre) @ ?stop, True)"
    using stdinPump_running_prefix [OF assms(1)] stdinPump_read_error [OF assms(2)] by simp
  have noclose: "count_list (fst (stdinPump sys pre)) RStdinClose = 0"
    using stdinPump_running_prefix [OF assms(1), of "[]"] by (simp add: count_list_0_iff)
  show ?thesis
    using run [of post] run [of "[]"] noclose stdinPump_close_count [of sys turns]
      RunInteractive_stdin_pump_once [of env]
    by simp
qed

theorem stdin_pump_closes_once_witness:
  "turn_continues passthroughInput lsTurn \<and>
   readFromStdin passthroughInput (Inl EOF) (Inl EOF) = Inl EOF \<and>
   stdinPump passthroughInput ([lsTurn] @ (Inl EOF, Inl EOF, None) # [lsTurn])
     = ([RStdinWrite [0x6C, 0x73, 0x0A], RStdinClose], True) \<and>
   count_list (fst (stdinPump passthroughInput ([lsTurn] @ (Inl EOF, Inl EOF, None) # [lsTurn])))
     RStdinClose = 1"
  using stdin_pump_closes_once [of "[lsTurn]" passthroughInput "Inl EOF" "Inl EOF" EOF None
      "[lsTurn]" "[]" goodEnv]
  by (simp add: turn_continues_def readFromStdin_def passthroughInput_def lsTurn_def)

section \<open>Facts about the resize pump\<close>

lemma resizeTurn_unchanged: "resizeTurn (w, h) (w, h, None) send = ((w, h), [])"
  by (simp add: resizeTurn_def)

lemma resizeTurn_changed:
  assumes "newW \<noteq> w \<or> newH \<noteq> h"
  shows "resizeTurn (w, h) (newW, newH, None) None =
           ((newW, newH), [SendRequest ''window-change'' False
              \<lparr>W = word_of_int newW, H = word_of_int newH, Wpx = 0, Hpx = 0\<rparr>])"
    and "resizeTurn (w, h) (newW, newH, None) (Some e) =
           ((w, h), [SendRequest ''window-change'' False
              \<lparr>W = word_of_int newW, H = word_of_int newH, Wpx = 0, Hpx = 0\<rparr>,
            ResizeLogged ''failed to set new window size'' e])"
  using assms by (auto simp: resizeTurn_def)

text \<open>
  Claim C5. After a notification the pump asks for the window size again. When width
  and height are those last reported it sends nothing. When one of them differs it sends
  one request named \<open>window-change\<close>, with the new width and height and both pixel
  fields zero; if the send succeeds the new pair becomes the last reported one, and if
  it fails the failure is logged, the pair stays, the goroutine keeps running, and the
  next notification sends the request again. Width and height are carried as
  \<^verbatim>\<open>uint32\<close>, exactly when they lie between 0 and \<open>2^32 - 1\<close>.
\<close>

theorem resize_pump_reports_changes:
  "resizeTurn (w, h) (w, h, None) send = ((w, h), []) \<and>
   ((newW \<noteq> w \<or> newH \<noteq> h) \<longrightarrow>
      resizeTurn (w, h) (newW, newH, None) None
        = ((newW, newH), [SendRequest ''window-change'' False
             \<lparr>W = word_of_int newW, H = word_of_int newH, Wpx = 0, Hpx = 0\<rparr>]) \<and>
      resizeTurn (w, h) (newW, newH, None) (Some e)
        = ((w, h), [SendRequest ''window-change'' False
             \<lparr>W = word_of_int newW, H = word_of_int newH, Wpx = 0, Hpx = 0\<rparr>,
           ResizeLogged ''failed to set new window size'' e]) \<and>
      resizeLoop (w, h) [Notified (newW, newH, None) (Some e), Notified (newW, newH, None) None]
        = ([SendRequest ''window-change'' False
              \<lparr>W = word_of_int newW, H = word_of_int newH, Wpx = 0, Hpx = 0\<rparr>,
            ResizeLogged ''failed to set new window size'' e,
            SendRequest ''window-change'' False
              \<lparr>W = word_of_int newW, H = word_of_int newH, Wpx = 0, Hpx = 0\<rparr>],
           (newW, newH), False)) \<and>
   (0 \<le> newW \<and> newW < 2 ^ 32 \<and> 0 \<le> newH \<and> newH < 2 ^ 32 \<longrightarrow>
      uint (W \<lparr>W = word_of_int newW, H = word_of_int newH, Wpx = 0, Hpx = 0\<rparr>) = newW \<and>
      uint (H \<lparr>W = word_of_int newW, H = word_of_int newH, Wpx = 0, Hpx = 0\<rparr>) = newH)"
proof (intro conjI impI)
  show "resizeTurn (w, h) (w, h, None) send = ((w, h), [])"
    by (rule resizeTurn_unchanged)
next
  assume "newW \<noteq> w \<or> newH \<noteq> h"
  then show "resizeTurn (w, h) (newW, newH, None) None
        = ((newW, newH), [SendRequest ''window-change'' False
             \<lparr>W = word_of_int newW, H = word_of_int newH, Wpx = 0, Hpx = 0\<rparr>])"
    by (rule resizeTurn_changed)
next
  assume "newW \<noteq> w \<or> newH \<noteq> h"
  then show "resizeTurn (w, h) (newW, newH, None) (Some e)
        = ((w, h), [SendRequest ''window-change'' False
             \<lparr>W = word_of_int newW, H = word_of_int newH, Wpx = 0, Hpx = 0\<rparr>,
           ResizeLogged ''failed to set new window size'' e])"
    by (rule resizeTurn_changed)
next
  assume ch: "newW \<noteq> w \<or> newH \<noteq> h"
  show "resizeLoop (w, h) [Notified (newW, newH, None) (Some e), Notified (newW, newH, None) None]
        = ([SendRequest ''window-change'' False
              \<lparr>W = word_of_int newW, H = word_of_int newH, Wpx = 0, Hpx = 0\<rparr>,
            ResizeLogged ''failed to set new window size'' e,
            SendRequest ''window-change'' False
              \<lparr>W = word_of_int newW, H = word_of_int newH, Wpx = 0, Hpx = 0\<rparr>],
           (newW, newH), False)"
    by (simp add: resizeTurn_changed [OF ch])
next
  assume "0 \<le> newW \<and> newW < 2 ^ 32 \<and> 0 \<le> newH \<and> newH < 2 ^ 32"
  then show "uint (W \<lparr>W = word_of_int newW, H = word_of_int newH, Wpx = 0, Hpx = 0\<rparr>) = newW"
    by (simp add: uint_word_of_int take_bit_int_eq_self)
next
  assume "0 \<le> newW \<and> newW < 2 ^ 32 \<and> 0 \<le> newH \<and> newH < 2 ^ 32"
  then show "uint (H \<lparr>W = word_of_int newW, H = word_of_int newH, Wpx = 0, Hpx = 0\<rparr>) = newH"
    by (simp add: uint_word_of_int take_bit_int_eq_self)
qed

theorem resize_pump_reports_changes_witness:
  "resizeTurn (80, 24) (80, 24, None) None = ((80, 24), []) \<and>
   (100::int) \<noteq> 80 \<and>
   resizeTurn (80, 24) (100, 30, None) None
     = ((100, 30), [SendRequest ''window-change'' False \<lparr>W = 100, H = 30, Wpx = 0, Hpx = 0\<rparr>]) \<and>
   resizeTurn (80, 24) (100, 30, None) (Some (Failure ''closed''))
     = ((80, 24), [SendRequest ''window-change'' False \<lparr>W = 100, H = 30, Wpx = 0, Hpx = 0\<rparr>,
                   ResizeLogged ''failed to set new window size'' (Failure ''closed'')]) \<and>
   resizeLoop (80, 24) [Notified (100, 30, None) (Some (Failure ''closed'')), Notified (100, 30, None) None]
     = ([SendRequest ''window-change'' False \<lparr>W = 100, H = 30, Wpx = 0, Hpx = 0\<rparr>,
         ResizeLogged ''failed to set new window size'' (Failure ''closed''),
         SendRequest ''window-change'' False \<lparr>W = 100, H = 30, Wpx = 0, Hpx = 0\<rparr>],
        (100, 30), False) \<and>
   uint (W \<lparr>W = word_of_int 100, H = word_of_int 30, Wpx = 0, Hpx = 0 :: 32 word\<rparr>) = 100"
  using resize_pump_reports_changes [of 80 24 None 100 30 "Failure ''closed''"]
  by simp

section \<open>Facts about the resize watcher\<close>

lemma watcherStep_blocked_send:
  assumes "pc s = AtSend" and "chLen s = chCap" and "ev \<noteq> ConsumerReceives"
  shows "pc (watcherStep s ev) = AtSend \<and> chLen (watcherStep s ev) = chCap \<and>
         chClosed (watcherStep s ev) = chClosed s \<and> (ctxDone s \<longrightarrow> ctxDone (watcherStep s ev))"
  using assms by (cases ev) simp_all

lemma runWatcher_blocked_send:
  assumes "pc s = AtSend" and "chLen s = chCap" and "ConsumerReceives \<notin> set events"
  shows "pc (runWatcher s events) = AtSend \<and> chClosed (runWatcher s events) = chClosed s \<and>
         (ctxDone s \<longrightarrow> ctxDone (runWatcher s events))"
  using assms unfolding runWatcher_def
proof (induction events arbitrary: s)
  case Nil
  then show ?case by simp
next
  case (Cons ev events)
  from Cons.prems have ne: "ev \<noteq> ConsumerReceives" and rest: "ConsumerReceives \<notin> set events"
    by auto
  note step = watcherStep_blocked_send [OF Cons.prems(1) Cons.prems(2) ne]
  have "pc (foldl watcherStep (watcherStep s ev) events) = AtSend \<and>
        chClosed (foldl watcherStep (watcherStep s ev) events) = chClosed (watcherStep s ev) \<and>
        (ctxDone (watcherStep s ev) \<longrightarrow> ctxDone (foldl watcherStep (watcherStep s ev) events))"
    using step rest by (intro Cons.IH) simp_all
  then show ?case using step by simp
qed

lemma twoEventsUnread_blocks:
  "runWatcher newWatcher twoEventsUnread =
     \<lparr>pc = AtSend, ctxDone = False, eventPending = False, chLen = 1, chClosed = 0\<rparr>"
  by (simp add: runWatcher_def newWatcher_def twoEventsUnread_def chCap_def)

lemma runWatcher_append: "runWatcher s (xs @ ys) = runWatcher (runWatcher s xs) ys"
  by (simp add: runWatcher_def)

lemma watcher_cancel_at_select:
  assumes "pc s = AtSelect"
  shows "runWatcher s [CtxCancel, WatcherRuns PickDone] =
           s\<lparr>ctxDone := True, pc := Returned, chClosed := chClosed s + 1\<rparr>"
  using assms by (simp add: runWatcher_def)

lemma watcherStep_closed_once:
  assumes "chClosed s = (if pc s = Returned then 1 else 0)"
  shows "chClosed (watcherStep s ev) = (if pc (watcherStep s ev) = Returned then 1 else 0)"
  using assms by (cases ev; cases "pc s") (auto split: if_splits)

lemma runWatcher_closed_once:
  assumes "chClosed s = (if pc s = Returned then 1 else 0)"
  shows "chClosed (runWatcher s events) = (if pc (runWatcher s events) = Returned then 1 else 0)"
  using assms unfolding runWatcher_def
proof (induction events arbitrary: s)
  case Nil
  then show ?case by simp
next
  case (Cons ev events)
  have "chClosed (watcherStep s ev) = (if pc (watcherStep s ev) = Returned then 1 else 0)"
    using Cons.prems by (rule watcherStep_closed_once)
  then show ?case using Cons.IH [of "watcherStep s ev"] by simp
qed

text \<open>
  Claim C7. A watcher that is at its \<^verbatim>\<open>select\<close> when the context is cancelled returns
  and closes its channel once, also when no event ever came, and no schedule closes the
  channel twice (the three lemmas above). But the send \<^verbatim>\<open>ch <- struct{}{}\<close> is outside the
  \<^verbatim>\<open>select\<close>: when two events have arrived and the consumer has not received, the
  watcher is blocked in the send; cancelling the context then changes nothing, and as long
  as the consumer receives nothing more (it has returned on the same cancellation) the
  watcher stays in the send for every further schedule and never closes the channel.
\<close>

theorem watcher_blocked_send_ignores_cancel:
  assumes "ConsumerReceives \<notin> set later"
  shows "pc (runWatcher newWatcher (twoEventsUnread @ CtxCancel # later)) = AtSend \<and>
         ctxDone (runWatcher newWatcher (twoEventsUnread @ CtxCancel # later)) \<and>
         chClosed (runWatcher newWatcher (twoEventsUnread @ CtxCancel # later)) = 0"
proof -
  let ?s = "watcherStep (runWatcher newWatcher twoEventsUnread) CtxCancel"
  have start: "pc ?s = AtSend" "chLen ?s = chCap" "ctxDone ?s" "chClosed ?s = 0"
    by (simp_all add: twoEventsUnread_blocks chCap_def)
  have "runWatcher newWatcher (twoEventsUnread @ CtxCancel # later) = runWatcher ?s later"
    by (simp add: runWatcher_def)
  then show ?thesis
    using runWatcher_blocked_send [OF start(1) start(2) assms] start(3) start(4) by simp
qed

theorem watcher_blocked_send_ignores_cancel_witness:
  "ConsumerReceives \<notin> set [WatcherRuns PickDone, EventArrives, WatcherRuns PickDone] \<and>
   runWatcher newWatcher
      (twoEventsUnread @ CtxCancel # [WatcherRuns PickDone, EventArrives, WatcherRuns PickDone])
     = \<lparr>pc = AtSend, ctxDone = True, eventPending = True, chLen = 1, chClosed = 0\<rparr>"
  using watcher_blocked_send_ignores_cancel [of "[WatcherRuns PickDone, EventArrives, WatcherRuns PickDone]"]
  by (simp add: runWatcher_def newWatcher_def twoEventsUnread_def chCap_def)

section \<open>Facts about the session-ending message\<close>

text \<open>
  Claim C8. The message printed at the end of the session is the line
  \<open>ssh connection to HOST closed\<close> followed by: \<open>successfully\<close> when the wait
  returned nil; \<open>but remote didn't send exit status\<close> and the error text when it returned
  a missing-exit-status error; \<open>with error\<close> and the error text when it returned a typed
  exit error, \<open>with unknown error\<close> and the error text for any other error. The three
  outcomes (success, no exit status, error with its detail) never share a message.
\<close>

theorem exit_message_outcomes:
  "printExitMessage host None = ''ssh connection to '' @ host @ '' closed successfully'' @ newline \<and>
   printExitMessage host (Some (ExitMissingError d)) =
     ''ssh connection to '' @ host @ '' closed but remote didn't send exit status: '' @ d @ newline \<and>
   printExitMessage host (Some (ExitError d)) =
     ''ssh connection to '' @ host @ '' closed with error: '' @ d @ newline \<and>
   printExitMessage host (Some (OtherError d)) =
     ''ssh connection to '' @ host @ '' closed with unknown error: '' @ d @ newline \<and>
   printExitMessage host None \<noteq> printExitMessage host (Some e) \<and>
   printExitMessage host (Some (ExitMissingError d)) \<noteq> printExitMessage host (Some (ExitError d')) \<and>
   printExitMessage host (Some (ExitMissingError d)) \<noteq> printExitMessage host (Some (OtherError d'))"
  by (cases e) (simp_all add: printExitMessage_def)

section \<open>Facts about the terminal modes\<close>

lemmas mode_defs = enableEchoInput_def enableLineInput_def enableProcessedInput_def
  enableVirtualTerminalInput_def enableVirtualTerminalProcessing_def disableNewlineAutoReturn_def
  vtInputMode_def rawInputMode_def vtOutputMode_def vtOutputMode2_def

lemma modesSetOn_append: "modesSetOn h (xs @ ys) = modesSetOn h xs @ modesSetOn h ys"
  by (induction h xs rule: modesSetOn.induct) simp_all

lemma changeStdinMode_facts:
  "(snd (snd (changeStdinMode con sys)) = None \<longrightarrow>
     emuStdin (fst (changeStdinMode con sys)) =
       (emuStdin sys \<or> setConsoleMode con Stdin
          ((stdinMode sys AND NOT (enableEchoInput OR enableProcessedInput OR enableLineInput))
             OR enableVirtualTerminalInput) \<noteq> None)) \<and>
   emuStdout (fst (changeStdinMode con sys)) = emuStdout sys \<and>
   stdoutMode (fst (changeStdinMode con sys)) = stdoutMode sys \<and>
   modesSetOn Stdout (fst (snd (changeStdinMode con sys))) = [] \<and>
   modesSetOn Stdin (fst (snd (changeStdinMode con sys))) =
     (let base = stdinMode sys AND NOT (enableEchoInput OR enableProcessedInput OR enableLineInput)
      in if setConsoleMode con Stdin (base OR enableVirtualTerminalInput) = None
         then [base OR enableVirtualTerminalInput]
         else [base OR enableVirtualTerminalInput, base])"
  by (simp add: changeStdinMode_def Let_def split: option.splits)

lemma changeStdoutMode_facts:
  "emuStdin (fst (changeStdoutMode con sys)) = emuStdin sys \<and>
   emuStdout (fst (changeStdoutMode con sys)) =
     (emuStdout sys \<or>
      (setConsoleMode con Stdout (stdoutMode sys OR enableVirtualTerminalProcessing OR disableNewlineAutoReturn) \<noteq> None \<and>
       setConsoleMode con Stdout (stdoutMode sys OR enableVirtualTerminalProcessing) \<noteq> None)) \<and>
   modesSetOn Stdin (snd (changeStdoutMode con sys)) = [] \<and>
   modesSetOn Stdout (snd (changeStdoutMode con sys)) =
     (if setConsoleMode con Stdout (stdoutMode sys OR enableVirtualTerminalProcessing OR disableNewlineAutoReturn) = None
      then [stdoutMode sys OR enableVirtualTerminalProcessing OR disableNewlineAutoReturn]
      else [stdoutMode sys OR enableVirtualTerminalProcessing OR disableNewlineAutoReturn,
            stdoutMode sys OR enableVirtualTerminalProcessing])"
  by (simp add: changeStdoutMode_def Let_def split: option.splits)

lemma changeStderrMode_facts:
  "emuStdin (fst (changeStderrMode con sys)) = emuStdin sys \<and>
   emuStdout (fst (changeStderrMode con sys)) = emuStdout sys \<and>
   modesSetOn Stdin (snd (changeStderrMode con sys)) = [] \<and>
   modesSetOn Stdout (snd (changeStderrMode con sys)) = []"
  by (simp add: changeStderrMode_def Let_def split: option.splits)


text \<open>
  Claim C9. When \<^verbatim>\<open>changeLocalTerminalMode\<close> of the Windows build succeeds, it has first
  asked the console for the input mode with virtual-terminal input, and has asked for the
  mode without it only when the console refused; \<open>emuStdin\<close> is set exactly when the
  console refused the first request (or was set before). On stdout it has first asked
  for virtual-terminal processing with \<^verbatim>\<open>disableNewlineAutoReturn\<close>, then for
  virtual-terminal processing alone when that was refused; \<open>emuStdout\<close> is set exactly when
  both were refused (or was set before). Each flag depends on the answers for its own
  stream only, so either may be set without the other.
\<close>

theorem emulation_flags_layered:
  assumes "snd (snd (changeLocalTerminalMode con sys)) = None"
  shows "emuStdin (fst (changeLocalTerminalMode con sys)) =
           (emuStdin sys \<or> setConsoleMode con Stdin (vtInputMode con) \<noteq> None) \<and>
         emuStdout (fst (changeLocalTerminalMode con sys)) =
           (emuStdout sys \<or>
            (setConsoleMode con Stdout (vtOutputMode con) \<noteq> None \<and>
             setConsoleMode con Stdout (vtOutputMode2 con) \<noteq> None)) \<and>
         modesSetOn Stdin (fst (snd (changeLocalTerminalMode con sys))) =
           (if setConsoleMode con Stdin (vtInputMode con) = None then [vtInputMode con]
            else [vtInputMode con, rawInputMode con]) \<and>
         modesSetOn Stdout (fst (snd (changeLocalTerminalMode con sys))) =
           (if setConsoleMode con Stdout (vtOutputMode con) = None then [vtOutputMode con]
            else [vtOutputMode con, vtOutputMode2 con])"
proof -
  obtain inMode inErr where gi: "getConsoleMode con Stdin = (inMode, inErr)"
    by (cases "getConsoleMode con Stdin")
  obtain outMode outErr where go: "getConsoleMode con Stdout = (outMode, outErr)"
    by (cases "getConsoleMode con Stdout")
  obtain errMode errErr where ge: "getConsoleMode con Stderr = (errMode, errErr)"
    by (cases "getConsoleMode con Stderr")
  let ?sys0 = "sys\<lparr>stdinMode := inMode, stdoutMode := outMode, stderrMode := errMode\<rparr>"
  obtain sys1 acts1 r1 where c1: "changeStdinMode con ?sys0 = (sys1, acts1, r1)"
    by (cases "changeStdinMode con ?sys0")
  obtain sys2 acts2 where c2: "changeStdoutMode con sys1 = (sys2, acts2)"
    by (cases "changeStdoutMode con sys1")
  obtain sys3 acts3 where c3: "changeStderrMode con sys2 = (sys3, acts3)"
    by (cases "changeStderrMode con sys2")
  from assms have ok: "inErr = None" "outErr = None" "errErr = None" "r1 = None"
    by (auto simp: changeLocalTerminalMode_def gi go ge c1 c2 c3 split: option.splits)
  have res: "changeLocalTerminalMode con sys = (sys3, acts1 @ acts2 @ acts3, None)"
    by (simp add: changeLocalTerminalMode_def gi go ge c1 c2 c3 ok)
  have f1: "emuStdin sys1 = (emuStdin sys \<or> setConsoleMode con Stdin (vtInputMode con) \<noteq> None)"
    "emuStdout sys1 = emuStdout sys" "stdoutMode sys1 = outMode"
    "modesSetOn Stdout acts1 = []"
    "modesSetOn Stdin acts1 =
      (if setConsoleMode con Stdin (vtInputMode con) = None then [vtInputMode con]
       else [vtInputMode con, rawInputMode con])"
    using changeStdinMode_facts [of con ?sys0]
    by (simp_all add: c1 ok vtInputMode_def rawInputMode_def gi Let_def)
  have f2: "emuStdin sys2 = emuStdin sys1"
    "emuStdout sys2 = (emuStdout sys1 \<or>
       (setConsoleMode con Stdout (vtOutputMode con) \<noteq> None \<and>
        setConsoleMode con Stdout (vtOutputMode2 con) \<noteq> None))"
    "modesSetOn Stdin acts2 = []"
    "modesSetOn Stdout acts2 =
      (if setConsoleMode con Stdout (vtOutputMode con) = None then [vtOutputMode con]
       else [vtOutputMode con, vtOutputMode2 con])"
    using changeStdoutMode_facts [of con sys1]
    by (simp_all add: c2 f1(3) vtOutputMode_def vtOutputMode2_def go)
  have f3: "emuStdin sys3 = emuStdin sys2" "emuStdout sys3 = emuStdout sys2"
    "modesSetOn Stdin acts3 = []" "modesSetOn Stdout acts3 = []"
    using changeStderrMode_facts [of con sys2] by (simp_all add: c3)
  show ?thesis
    by (simp add: res modesSetOn_append f1 f2 f3)
qed

theorem emulation_flags_layered_witness:
  "snd (snd (changeLocalTerminalMode inputOnlyLegacy newSysInfo)) = None \<and>
   emuStdin (fst (changeLocalTerminalMode inputOnlyLegacy newSysInfo)) \<and>
   \<not> emuStdout (fst (changeLocalTerminalMode inputOnlyLegacy newSysInfo)) \<and>
   modesSetOn Stdin (fst (snd (changeLocalTerminalMode inputOnlyLegacy newSysInfo))) = [0x03F0, 0x01F0] \<and>
   modesSetOn Stdout (fst (snd (changeLocalTerminalMode inputOnlyLegacy newSysInfo))) = [0x000F] \<and>
   snd (snd (changeLocalTerminalMode outputOnlyLegacy newSysInfo)) = None \<and>
   \<not> emuStdin (fst (changeLocalTerminalMode outputOnlyLegacy newSysInfo)) \<and>
   emuStdout (fst (changeLocalTerminalMode outputOnlyLegacy newSysInfo)) \<and>
   modesSetOn Stdin (fst (snd (changeLocalTerminalMode outputOnlyLegacy newSysInfo))) = [0x03F0] \<and>
   modesSetOn Stdout (fst (snd (changeLocalTerminalMode outputOnlyLegacy newSysInfo))) = [0x000F, 0x0007]"
proof -
  have a: "snd (snd (changeLocalTerminalMode inputOnlyLegacy newSysInfo)) = None"
    by (simp add: changeLocalTerminalMode_def changeStdinMode_def changeStdoutMode_def
        changeStderrMode_def inputOnlyLegacy_def newSysInfo_def mode_defs)
  have b: "snd (snd (changeLocalTerminalMode outputOnlyLegacy newSysInfo)) = None"
    by (simp add: changeLocalTerminalMode_def changeStdinMode_def changeStdoutMode_def
        changeStderrMode_def outputOnlyLegacy_def newSysInfo_def mode_defs)
  show ?thesis
    using emulation_flags_layered [OF a] emulation_flags_layered [OF b] a b
    by (simp add: inputOnlyLegacy_def outputOnlyLegacy_def newSysInfo_def mode_defs)
qed

lemma restoreLocalTerminalMode_unset:
  assumes "stdinMode sys = 0" and "stdoutMode sys = 0" and "stderrMode sys = 0"
  shows "restoreLocalTerminalMode con sys = ([], None)"
  using assms by (simp add: restoreLocalTerminalMode_def)

lemma restoreLocalTerminalMode_modesSetOn:
  "modesSetOn Stdin (fst (restoreLocalTerminalMode con sys)) = (if stdinMode sys > 0 then [stdinMode sys] else []) \<and>
   modesSetOn Stdout (fst (restoreLocalTerminalMode con sys)) = (if stdoutMode sys > 0 then [stdoutMode sys] else []) \<and>
   modesSetOn Stderr (fst (restoreLocalTerminalMode con sys)) = (if stderrMode sys > 0 then [stderrMode sys] else [])"
  by (simp add: restoreLocalTerminalMode_def Let_def)

lemma Close_unset:
  assumes "stdinMode sys = 0" and "stdoutMode sys = 0" and "stderrMode sys = 0"
  shows "Close (restoreLocalTerminalMode con sys) hasSess hasConn =
           (if hasSess then [SessClose] else []) @ (if hasConn then [ConnClose] else [])"
  using assms by (simp add: Close_def restoreLocalTerminalMode_unset)

text \<open>
  Claim C10, as the code has it. \<^verbatim>\<open>restoreLocalTerminalMode\<close> sets no mode on a stream
  whose saved mode word is zero (Windows), and with all three zero it does nothing and
  returns nil; with a nil \<^verbatim>\<open>origMode\<close> (the other platforms) it does nothing and returns
  nil. So \<^verbatim>\<open>Close\<close> on a session whose snapshot is unset, as \<^verbatim>\<open>Open\<close> makes it and as
  it is until \<^verbatim>\<open>changeLocalTerminalMode\<close> is first called, touches no terminal mode and
  logs no error: it only closes the session and the connection. (Once
  \<^verbatim>\<open>changeLocalTerminalMode\<close> of the Windows build has been called the snapshot may be
  set although the call failed and raw mode was never entered; \<^verbatim>\<open>Close\<close> then restores
  the modes it holds, as the theorem after the next two shows.)
\<close>

theorem restore_skips_unset_modes:
  "(stdinMode sys = 0 \<longrightarrow> modesSetOn Stdin (fst (restoreLocalTerminalMode con sys)) = []) \<and>
   (stdoutMode sys = 0 \<longrightarrow> modesSetOn Stdout (fst (restoreLocalTerminalMode con sys)) = []) \<and>
   (stderrMode sys = 0 \<longrightarrow> modesSetOn Stderr (fst (restoreLocalTerminalMode con sys)) = []) \<and>
   (stdinMode sys = 0 \<and> stdoutMode sys = 0 \<and> stderrMode sys = 0 \<longrightarrow>
      restoreLocalTerminalMode con sys = ([], None)) \<and>
   (origMode psys = None \<longrightarrow> restoreLocalTerminalModePosix restore psys = ([], None)) \<and>
   Close (restoreLocalTerminalMode con newSysInfo) hasSess hasConn =
     (if hasSess then [SessClose] else []) @ (if hasConn then [ConnClose] else []) \<and>
   Close (restoreLocalTerminalModePosix restore newSysInfoPosix) hasSess hasConn =
     (if hasSess then [SessClose] else []) @ (if hasConn then [ConnClose] else []) \<and>
   (stdinMode sys = 0 \<and> stdoutMode sys = 0 \<and> stderrMode sys = 0 \<longrightarrow>
      Close (restoreLocalTerminalMode con sys) hasSess hasConn =
        (if hasSess then [SessClose] else []) @ (if hasConn then [ConnClose] else [])) \<and>
   (origMode psys = None \<longrightarrow>
      Close (restoreLocalTerminalModePosix restore psys) hasSess hasConn =
        (if hasSess then [SessClose] else []) @ (if hasConn then [ConnClose] else []))"
proof (intro conjI impI)
  assume "stdinMode sys = 0"
  then show "modesSetOn Stdin (fst (restoreLocalTerminalMode con sys)) = []"
    using restoreLocalTerminalMode_modesSetOn [of con sys] by simp
next
  assume "stdoutMode sys = 0"
  then show "modesSetOn Stdout (fst (restoreLocalTerminalMode con sys)) = []"
    using restoreLocalTerminalMode_modesSetOn [of con sys] by simp
next
  assume "stderrMode sys = 0"
  then show "modesSetOn Stderr (fst (restoreLocalTerminalMode con sys)) = []"
    using restoreLocalTerminalMode_modesSetOn [of con sys] by simp
next
  assume "stdinMode sys = 0 \<and> stdoutMode sys = 0 \<and> stderrMode sys = 0"
  then show "restoreLocalTerminalMode con sys = ([], None)"
    by (simp add: restoreLocalTerminalMode_unset)
next
  assume "origMode psys = None"
  then show "restoreLocalTerminalModePosix restore psys = ([], None)"
    by (simp add: restoreLocalTerminalModePosix_def)
next
  show "Close (restoreLocalTerminalMode con newSysInfo) hasSess hasConn =
     (if hasSess then [SessClose] else []) @ (if hasConn then [ConnClose] else [])"
    by (simp add: Close_def restoreLocalTerminalMode_unset newSysInfo_def)
next
  show "Close (restoreLocalTerminalModePosix restore newSysInfoPosix) hasSess hasConn =
     (if hasSess then [SessClose] else []) @ (if hasConn then [ConnClose] else [])"
    by (simp add: Close_def restoreLocalTerminalModePosix_def newSysInfoPosix_def)
next
  assume "stdinMode sys = 0 \<and> stdoutMode sys = 0 \<and> stderrMode sys = 0"
  then show "Close (restoreLocalTerminalMode con sys) hasSess hasConn =
        (if hasSess then [SessClose] else []) @ (if hasConn then [ConnClose] else [])"
    by (simp add: Close_unset)
next
  assume "origMode psys = None"
  then show "Close (restoreLocalTerminalModePosix restore psys) hasSess hasConn =
        (if hasSess then [SessClose] else []) @ (if hasConn then [ConnClose] else [])"
    by (simp add: Close_def restoreLocalTerminalModePosix_def)
qed

theorem restore_skips_unset_modes_witness:
  "stdoutMode (fst (changeLocalTerminalMode outputOnlyLegacy newSysInfo)) = 0 \<and>
   stderrMode (fst (changeLocalTerminalMode outputOnlyLegacy newSysInfo)) = 0 \<and>
   restoreLocalTerminalMode outputOnlyLegacy (fst (changeLocalTerminalMode outputOnlyLegacy newSysInfo))
     = ([SetConsoleMode Stdin 0x01F7], None) \<and>
   stdinMode newSysInfo = 0 \<and> stdoutMode newSysInfo = 0 \<and> stderrMode newSysInfo = 0 \<and>
   restoreLocalTerminalMode outputOnlyLegacy newSysInfo = ([], None) \<and>
   origMode newSysInfoPosix = None \<and>
   restoreLocalTerminalModePosix (\<lambda>st. Some (Errno 25)) newSysInfoPosix = ([], None) \<and>
   Close (restoreLocalTerminalMode outputOnlyLegacy newSysInfo) True True = [SessClose, ConnClose]"
  using restore_skips_unset_modes [of "fst (changeLocalTerminalMode outputOnlyLegacy newSysInfo)"
      outputOnlyLegacy newSysInfoPosix "\<lambda>st. Some (Errno 25)" True True]
    restore_skips_unset_modes [of newSysInfo outputOnlyLegacy newSysInfoPosix
      "\<lambda>st. Some (Errno 25)" True True]
  by (simp add: changeLocalTerminalMode_def changeStdinMode_def changeStdoutMode_def
      changeStderrMode_def outputOnlyLegacy_def newSysInfo_def newSysInfoPosix_def mode_defs
      restoreLocalTerminalMode_def)

text \<open>
  Against claim C10 as it was stated (\<^verbatim>\<open>Close\<close> before raw mode was ever entered never
  touches the terminal mode and never reports a restoration error). On a console whose
  stderr mode cannot be read, \<^verbatim>\<open>changeLocalTerminalMode\<close> fails before it has set any
  mode, yet it has stored the modes of stdin and stdout, and \<^verbatim>\<open>Close\<close> sets both. On a
  console that refuses every mode on stdin, \<^verbatim>\<open>changeLocalTerminalMode\<close> fails too, and
  \<^verbatim>\<open>Close\<close> sets the three stored modes, is refused on stdin and logs the error of the
  restoration.
\<close>

theorem close_after_failed_mode_change:
  "snd (snd (changeLocalTerminalMode stderrUnreadable newSysInfo))
     = Some (Wrapped ''failed to get local stderr mode'' (Errno 6)) \<and>
   fst (snd (changeLocalTerminalMode stderrUnreadable newSysInfo)) = [] \<and>
   Close (restoreLocalTerminalMode stderrUnreadable
            (fst (changeLocalTerminalMode stderrUnreadable newSysInfo))) True True
     = [Restoring (SetConsoleMode Stdin 0x01F7), Restoring (SetConsoleMode Stdout 0x0003),
        SessClose, ConnClose] \<and>
   snd (snd (changeLocalTerminalMode stdinRefusesSet newSysInfo))
     = Some (Wrapped ''failed to set local stdin mode'' (Errno 5)) \<and>
   Close (restoreLocalTerminalMode stdinRefusesSet
            (fst (changeLocalTerminalMode stdinRefusesSet newSysInfo))) True True
     = [Restoring (SetConsoleMode Stdin 0x01F7), Restoring (SetConsoleMode Stdout 0x0003),
        Restoring (SetConsoleMode Stderr 0x0003),
        CloseLogged (RestoreFailed [(''stdin'', Errno 5)]), SessClose, ConnClose]"
  by (simp add: changeLocalTerminalMode_def changeStdinMode_def stderrUnreadable_def
      stdinRefusesSet_def newSysInfo_def mode_defs restoreLocalTerminalMode_def Close_def)

end
